theory Spec2Isabelle
  imports Complex_Main
begin

section \<open>Numbers, clock and errors\<close>

text \<open>
  JavaScript numbers are modelled as exact rationals: prices, multipliers and stock levels
  are decimal fractions, and \<open>Math.round x\<close> is \<open>\<lfloor>x + 1/2\<rfloor>\<close>. The rounding error of
  IEEE doubles is outside the model. Dates are milliseconds since the epoch; the clock
  reading of a request is passed in.
\<close>

type_synonym number = rat
type_synonym date = nat

definition Math_round :: "number \<Rightarrow> number" where
  "Math_round x = of_int \<lfloor>x + 1 / 2\<rfloor>"

text \<open>A thrown JavaScript \<open>Error\<close> with its message.\<close>

datatype js_error = Error string

section \<open>models/Inventory.js\<close>

record stock_entry =
  se_action :: string
  se_quantity :: number
  previousStock :: number
  newStock :: number
  se_reason :: string
  performedBy :: "string option"
  se_timestamp :: date
  se_orderId :: "string option"

record inventory_item =
  name :: string
  category :: string
  currentStock :: number
  minStockLevel :: number
  maxStockLevel :: number
  pricePerUnit :: number
  lastRestocked :: date
  isActive :: bool
  lowStockAlertSent :: bool
  stockHistory :: "stock_entry list"
  inv_updatedAt :: date

text \<open>
  The \<open>pre('save')\<close> hook of the inventory schema: a document whose maximum level does not
  exceed its minimum level is refused, otherwise \<open>updatedAt\<close> is stamped.
\<close>

definition inventory_pre_save :: "date \<Rightarrow> inventory_item \<Rightarrow> js_error + inventory_item" where
  "inventory_pre_save now it =
     (if maxStockLevel it \<le> minStockLevel it
      then Inl (Error ''Maximum stock level must be greater than minimum stock level'')
      else Inr (it\<lparr>inv_updatedAt := now\<rparr>))"

definition isLowStock :: "inventory_item \<Rightarrow> bool" where
  "isLowStock it \<longleftrightarrow> currentStock it \<le> minStockLevel it"

definition isCriticallyLowStock :: "inventory_item \<Rightarrow> bool" where
  "isCriticallyLowStock it \<longleftrightarrow> currentStock it \<le> minStockLevel it / 2"

text \<open>
  \<open>updateStock\<close>, up to its final \<open>this.save()\<close>: the switch on the action, the clamp at
  zero and the push onto \<open>stockHistory\<close>. An unknown action throws before anything is
  changed.
\<close>

definition updateStock_doc ::
  "date \<Rightarrow> string \<Rightarrow> number \<Rightarrow> string \<Rightarrow> string option \<Rightarrow> string option
    \<Rightarrow> inventory_item \<Rightarrow> js_error + inventory_item" where
  "updateStock_doc now action quantity reason by oid it =
     (let previous = currentStock it;
          switched =
            (if action = ''restock''
             then Inr (it\<lparr>currentStock := currentStock it + quantity,
                           lastRestocked := now,
                           lowStockAlertSent := False\<rparr>)
             else if action = ''consumption'' \<or> action = ''wastage''
             then Inr (it\<lparr>currentStock := currentStock it - quantity\<rparr>)
             else if action = ''adjustment''
             then Inr (it\<lparr>currentStock := quantity\<rparr>)
             else Inl (Error ''Invalid stock action''))
      in case switched of
           Inl e \<Rightarrow> Inl e
         | Inr it1 \<Rightarrow>
             let it2 = (if currentStock it1 < 0 then it1\<lparr>currentStock := 0\<rparr> else it1)
             in Inr (it2\<lparr>stockHistory := stockHistory it2 @
                     [\<lparr>se_action = action,
                       se_quantity = \<bar>quantity\<bar>,
                       previousStock = previous,
                       newStock = currentStock it2,
                       se_reason = reason,
                       performedBy = by,
                       se_timestamp = now,
                       se_orderId = oid\<rparr>]\<rparr>))"

text \<open>\<open>updateStock\<close> with the save it returns: the mutation, then the pre-save hook.\<close>

definition updateStock ::
  "date \<Rightarrow> string \<Rightarrow> number \<Rightarrow> string \<Rightarrow> string option \<Rightarrow> string option
    \<Rightarrow> inventory_item \<Rightarrow> js_error + inventory_item" where
  "updateStock now action quantity reason by oid it =
     (case updateStock_doc now action quantity reason by oid it of
        Inl e \<Rightarrow> Inl e
      | Inr it' \<Rightarrow> inventory_pre_save now it')"

definition getStockStatus :: "inventory_item \<Rightarrow> string" where
  "getStockStatus it =
     (if isCriticallyLowStock it then ''critical''
      else if isLowStock it then ''low''
      else if currentStock it \<ge> maxStockLevel it then ''overstocked''
      else ''normal'')"

text \<open>What each action does to the stock before the clamp.\<close>

definition stock_after :: "string \<Rightarrow> number \<Rightarrow> number \<Rightarrow> number" where
  "stock_after action quantity stock =
     (if action = ''restock'' then stock + quantity
      else if action = ''adjustment'' then quantity
      else stock - quantity)"

definition stock_actions :: "string set" where
  "stock_actions = {''restock'', ''consumption'', ''wastage'', ''adjustment''}"

text \<open>A seeded inventory item with the thresholds of the classification scenario.\<close>

definition sample_item :: "number \<Rightarrow> inventory_item" where
  "sample_item stock =
     \<lparr>name = ''Thin Crust'', category = ''base'', currentStock = stock,
      minStockLevel = 20, maxStockLevel = 200, pricePerUnit = 15, lastRestocked = 0,
      isActive = True, lowStockAlertSent = True, stockHistory = [], inv_updatedAt = 0\<rparr>"

section \<open>models/Pizza.js\<close>

datatype pizza_size = Small | Medium | Large | ExtraLarge

record size_option =
  so_size :: pizza_size
  priceMultiplier :: number

record pizza =
  pizza_id :: string
  pizza_name :: string
  basePrice :: number
  sizes :: "size_option list"
  isAvailable :: bool
  preparationTime :: number

record option_entry =
  opt_name :: string
  opt_price :: number
  opt_isAvailable :: bool

record pizza_options =
  bases :: "option_entry list"
  sauces :: "option_entry list"
  cheeses :: "option_entry list"
  opt_vegetables :: "option_entry list"
  opt_meats :: "option_entry list"

section \<open>The Order model\<close>

datatype order_status =
  Pending | Confirmed | Preparing | Ready | OutForDelivery | Delivered | Cancelled

datatype payment_status = PaymentPending | PaymentCompleted | PaymentFailed | PaymentRefunded

datatype payment_method = Razorpay | Cod

record customization =
  cust_name :: string
  cust_price :: number

record customization_snapshot =
  base :: "customization option"
  sauce :: "customization option"
  cheese :: "customization list"
  vegetables :: "customization list"
  meats :: "customization list"

record order_item =
  oi_pizza :: string
  quantity :: int
  oi_size :: pizza_size
  customizations :: customization_snapshot
  itemPrice :: number
  totalItemPrice :: number

record order_pricing =
  subtotal :: number
  deliveryFee :: number
  tax :: number
  discount :: number
  total :: number

record status_entry =
  sh_status :: order_status
  sh_timestamp :: date
  updatedBy :: "string option"
  sh_notes :: string

record address =
  street :: string
  city :: string
  state :: string
  zipCode :: string

record order =
  orderId :: string
  user :: string
  items :: "order_item list"
  deliveryAddress :: address
  contactPhone :: string
  orderStatus :: order_status
  paymentStatus :: payment_status
  paymentMethod :: payment_method
  razorpayOrderId :: "string option"
  razorpayPaymentId :: "string option"
  razorpaySignature :: "string option"
  pricing :: order_pricing
  estimatedDeliveryTime :: date
  actualDeliveryTime :: "date option"
  orderNotes :: "string option"
  statusHistory :: "status_entry list"
  createdAt :: date
  updatedAt :: date

text \<open>
  The collections are lists in insertion order; \<open>findOne\<close> returns the first match. Of
  the schema validators of the persistence library, the one modelled is the required
  \<open>orderId\<close> of an order, which a save checks before its hooks run.
\<close>

text \<open>
  A loaded or freshly constructed order document. Besides the order it carries what the
  pre-save hooks ask the persistence library: whether the document is new, and whether
  \<open>orderStatus\<close> is modified. An assignment marks the path modified only when the value
  assigned differs from the one held; a successful save clears both flags.
\<close>

record order_doc =
  doc :: order
  isNew :: bool
  orderStatus_modified :: bool

definition load :: "order \<Rightarrow> order_doc" where
  "load ord = \<lparr>doc = ord, isNew = False, orderStatus_modified = False\<rparr>"

definition set_orderStatus :: "order_status \<Rightarrow> order_doc \<Rightarrow> order_doc" where
  "set_orderStatus st d =
     (if orderStatus (doc d) = st then d
      else d\<lparr>doc := (doc d)\<lparr>orderStatus := st\<rparr>, orderStatus_modified := True\<rparr>)"

definition push_history :: "status_entry \<Rightarrow> order_doc \<Rightarrow> order_doc" where
  "push_history h d = d\<lparr>doc := (doc d)\<lparr>statusHistory := statusHistory (doc d) @ [h]\<rparr>\<rparr>"

fun status_str :: "order_status \<Rightarrow> string" where
  "status_str Pending = ''pending''"
| "status_str Confirmed = ''confirmed''"
| "status_str Preparing = ''preparing''"
| "status_str Ready = ''ready''"
| "status_str OutForDelivery = ''out-for-delivery''"
| "status_str Delivered = ''delivered''"
| "status_str Cancelled = ''cancelled''"

fun size_str :: "pizza_size \<Rightarrow> string" where
  "size_str Small = ''small''"
| "size_str Medium = ''medium''"
| "size_str Large = ''large''"
| "size_str ExtraLarge = ''extra-large''"

section \<open>What a request meets: clock, gateway, mailer, stored collections\<close>

text \<open>
  The collaborators outside the repository are inputs of a request: the clock, the
  identifier the first pre-save hook builds from the clock and a random number, the answer
  of the payment gateway (\<open>None\<close> when the call throws), whether a refund and a mail go
  through, the gateway secret of the process environment, the HMAC-SHA256 primitive (key,
  message, hexadecimal digest) and the case-insensitive regular-expression test
  (pattern, subject) of the inventory lookup.
\<close>

record env =
  now :: date
  fresh_orderId :: string
  gateway_orderId :: "string option"
  refund_succeeds :: bool
  email_succeeds :: bool
  key_secret :: "string option"
  hmac_sha256_hex :: "string \<Rightarrow> string \<Rightarrow> string"
  regex_test_i :: "string \<Rightarrow> string \<Rightarrow> bool"

datatype user_role = UserRole | AdminRole

text \<open>\<open>req.user\<close>, as the \<open>protect\<close> middleware leaves it.\<close>

record auth_user =
  user_id :: string
  user_name :: string
  role :: user_role
  isEmailVerified :: bool

text \<open>Mails sent, socket events emitted and refunds issued, in order.\<close>

datatype event =
    OrderConfirmationEmail string
  | OrderStatusEmail string order_status
  | LowStockEmail "string list"
  | OrderStatusUpdate string string order_status string
  | NewOrder string number nat
  | OrderStatusChanged string order_status string
  | Refund "string option" number string

record store =
  pizzas :: "pizza list"
  pizzaOptions :: "pizza_options option"
  orders :: "order list"
  inventory :: "inventory_item list"
  outbox :: "event list"

datatype response = Failure nat string | Success nat string order

text \<open>
  The error middleware, for the errors a save can pass to it: a duplicate key, a
  validation error with the messages of the paths refused, any other error.
\<close>

datatype save_error = DuplicateKey string | ValidationError "string list" | Thrown string

fun join_messages :: "string list \<Rightarrow> string" where
  "join_messages [] = []"
| "join_messages [m] = m"
| "join_messages (m # ms) = m @ '', '' @ join_messages ms"

fun errorHandler :: "save_error \<Rightarrow> response" where
  "errorHandler (DuplicateKey field) =
     Failure 400 (if field = ''email'' then ''Email already exists''
                  else if field = ''orderId'' then ''Order ID already exists''
                  else ''Duplicate field value entered'')"
| "errorHandler (ValidationError msgs) =
     Failure 400 (if join_messages msgs = [] then ''Server Error'' else join_messages msgs)"
| "errorHandler (Thrown msg) = Failure 500 (if msg = [] then ''Server Error'' else msg)"

subsection \<open>Saving an order\<close>

text \<open>
  A save validates the document against the schema before it runs the \<open>pre('save')\<close> hooks
  of the schema. \<open>orderId\<close> is a required path, and of the required paths it is the one a
  document of the handlers can lack.
\<close>

definition validate_order :: "order \<Rightarrow> string list" where
  "validate_order ord = (if orderId ord = [] then [''Path `orderId` is required.''] else [])"

text \<open>
  The two \<open>pre('save')\<close> hooks of the order schema, in the order they are registered: the
  first fills in a missing \<open>orderId\<close> and stamps \<open>updatedAt\<close>; the second pushes a history
  entry when \<open>orderStatus\<close> is modified on a document that is not new.
\<close>

definition hook_entry :: "env \<Rightarrow> order_status \<Rightarrow> status_entry" where
  "hook_entry e st =
     \<lparr>sh_status = st, sh_timestamp = now e, updatedBy = None,
      sh_notes = ''Status updated to '' @ status_str st\<rparr>"

definition order_pre_save :: "env \<Rightarrow> order_doc \<Rightarrow> order_doc" where
  "order_pre_save e d =
     (let d1 = d\<lparr>doc := (doc d)\<lparr>orderId := (if orderId (doc d) = [] then fresh_orderId e
                                               else orderId (doc d)),
                                  updatedAt := now e\<rparr>\<rparr>
      in if orderStatus_modified d1 \<and> \<not> isNew d1
         then push_history (hook_entry e (orderStatus (doc d1))) d1
         else d1)"

text \<open>
  \<open>save\<close>: a document that fails the validation is refused before any hook runs;
  otherwise the hooks run, and a new document is inserted, unless its \<open>orderId\<close> is taken
  (the unique index), while a loaded one replaces the stored order it was loaded from.
  Orders are identified by \<open>orderId\<close>.
\<close>

definition replace_order :: "order \<Rightarrow> order list \<Rightarrow> order list" where
  "replace_order new os = map (\<lambda>x. if orderId x = orderId new then new else x) os"

definition save_order :: "env \<Rightarrow> order_doc \<Rightarrow> order list \<Rightarrow> save_error + order_doc \<times> order list" where
  "save_order e d os =
     (if validate_order (doc d) \<noteq> [] then Inl (ValidationError (validate_order (doc d)))
      else
        let d1 = order_pre_save e d;
            saved = d1\<lparr>isNew := False, orderStatus_modified := False\<rparr>
        in if isNew d
           then (if orderId (doc d1) \<in> set (map orderId os) then Inl (DuplicateKey ''orderId'')
                 else Inr (saved, os @ [doc d1]))
           else Inr (saved, replace_order (doc d1) os))"

section \<open>routes/order.js: POST /api/orders/create\<close>

record req_customizations =
  req_base :: "string option"
  req_sauce :: "string option"
  req_cheese :: "string list"
  req_vegetables :: "string list"
  req_meats :: "string list"

record req_item =
  ri_pizza :: string
  ri_quantity :: int
  ri_size :: pizza_size
  ri_customizations :: "req_customizations option"

record create_request =
  req_items :: "req_item list"
  req_deliveryAddress :: address
  req_contactPhone :: string
  req_paymentMethod :: payment_method
  req_orderNotes :: "string option"

subsection \<open>The validators of the route\<close>

text \<open>
  A string is a list of code units below 256. The sanitizer \<open>trim\<close> strips the
  white-space class of regular expressions at both ends: among these code units, the
  tab, the line feed, the vertical tab, the form feed, the carriage return, the space
  and the no-break space.
\<close>

definition whitespace :: "char \<Rightarrow> bool" where
  "whitespace c \<longleftrightarrow>
     c \<in> set [CHR '' '', CHR 0x09, CHR 0x0A, CHR 0x0B, CHR 0x0C, CHR 0x0D, CHR 0xA0]"

definition trim :: "string \<Rightarrow> string" where
  "trim s = rev (dropWhile whitespace (rev (dropWhile whitespace s)))"

definition digits_only :: "nat \<Rightarrow> string \<Rightarrow> bool" where
  "digits_only n s \<longleftrightarrow> length s = n \<and> list_all (\<lambda>c. c \<in> set ''0123456789'') s"

definition isMongoId :: "string \<Rightarrow> bool" where
  "isMongoId s \<longleftrightarrow> length s = 24 \<and> list_all (\<lambda>c. c \<in> set ''0123456789abcdefABCDEF'') s"

definition create_valid :: "create_request \<Rightarrow> bool" where
  "create_valid rq \<longleftrightarrow>
     req_items rq \<noteq> []
     \<and> list_all (\<lambda>i. isMongoId (ri_pizza i)) (req_items rq)
     \<and> list_all (\<lambda>i. 1 \<le> ri_quantity i \<and> ri_quantity i \<le> 10) (req_items rq)
     \<and> trim (street (req_deliveryAddress rq)) \<noteq> []
     \<and> trim (city (req_deliveryAddress rq)) \<noteq> []
     \<and> trim (state (req_deliveryAddress rq)) \<noteq> []
     \<and> digits_only 6 (zipCode (req_deliveryAddress rq))
     \<and> digits_only 10 (req_contactPhone rq)"

subsection \<open>Pricing one item\<close>

definition snapshot :: "option_entry \<Rightarrow> customization" where
  "snapshot b = \<lparr>cust_name = opt_name b, cust_price = opt_price b\<rparr>"

text \<open>\<open>list.find(b => b.name === n && b.isAvailable)\<close>.\<close>

definition find_option :: "option_entry list \<Rightarrow> string \<Rightarrow> option_entry option" where
  "find_option opts n = find (\<lambda>b. opt_name b = n \<and> opt_isAvailable b) opts"

text \<open>
  The base and the sauce: a single name, skipped when absent or empty; when an available
  entry is found, it is stored and its price added to the running cost.
\<close>

definition process_single ::
  "option_entry list \<Rightarrow> string option \<Rightarrow> number \<Rightarrow> customization option \<times> number" where
  "process_single opts sel cost =
     (case sel of
        None \<Rightarrow> (None, cost)
      | Some n \<Rightarrow>
          if n = [] then (None, cost)
          else (case find_option opts n of
                  None \<Rightarrow> (None, cost)
                | Some b \<Rightarrow> (Some (snapshot b), cost + opt_price b)))"

text \<open>
  The body of the \<open>forEach\<close> over cheese, vegetable and meat names: the pair is the list
  pushed so far and the running cost.
\<close>

definition process_name ::
  "option_entry list \<Rightarrow> string \<Rightarrow> customization list \<times> number \<Rightarrow> customization list \<times> number" where
  "process_name opts n acc =
     (case find_option opts n of
        None \<Rightarrow> acc
      | Some b \<Rightarrow> (fst acc @ [snapshot b], snd acc + opt_price b))"

definition process_names ::
  "option_entry list \<Rightarrow> string list \<Rightarrow> number \<Rightarrow> customization list \<times> number" where
  "process_names opts ns cost = fold (process_name opts) ns ([], cost)"

definition process_customizations ::
  "pizza_options \<Rightarrow> req_customizations option \<Rightarrow> customization_snapshot \<times> number" where
  "process_customizations po sel =
     (case sel of
        None \<Rightarrow> (\<lparr>base = None, sauce = None, cheese = [], vegetables = [], meats = []\<rparr>, 0)
      | Some c \<Rightarrow>
          let (b, cost1) = process_single (bases po) (req_base c) 0;
              (s, cost2) = process_single (sauces po) (req_sauce c) cost1;
              (ch, cost3) = process_names (cheeses po) (req_cheese c) cost2;
              (vs, cost4) = process_names (opt_vegetables po) (req_vegetables c) cost3;
              (ms, cost5) = process_names (opt_meats po) (req_meats c) cost4
          in (\<lparr>base = b, sauce = s, cheese = ch, vegetables = vs, meats = ms\<rparr>, cost5))"

text \<open>The body of the loop over the requested items.\<close>

definition process_item :: "pizza list \<Rightarrow> pizza_options \<Rightarrow> req_item \<Rightarrow> nat \<times> string + order_item" where
  "process_item ps po i =
     (case find (\<lambda>p. pizza_id p = ri_pizza i) ps of
        None \<Rightarrow> Inl (400, ''Pizza '' @ ri_pizza i @ '' is not available'')
      | Some p \<Rightarrow>
          if \<not> isAvailable p
          then Inl (400, ''Pizza '' @ ri_pizza i @ '' is not available'')
          else (case find (\<lambda>s. so_size s = ri_size i) (sizes p) of
                  None \<Rightarrow> Inl (400, ''Size '' @ size_str (ri_size i)
                                    @ '' not available for '' @ pizza_name p)
                | Some sizeOption \<Rightarrow>
                    let price = basePrice p * priceMultiplier sizeOption;
                        (processed, customizationCost) =
                           process_customizations po (ri_customizations i)
                    in Inr \<lparr>oi_pizza = pizza_id p,
                            quantity = ri_quantity i,
                            oi_size = ri_size i,
                            customizations = processed,
                            itemPrice = price + customizationCost,
                            totalItemPrice =
                              (price + customizationCost) * of_int (ri_quantity i)\<rparr>))"

text \<open>
  The loop: the items pushed so far and the running subtotal; the first failure (status
  code and message) returns.
\<close>

fun process_items ::
  "pizza list \<Rightarrow> pizza_options \<Rightarrow> req_item list \<Rightarrow> order_item list \<Rightarrow> number
    \<Rightarrow> nat \<times> string + order_item list \<times> number" where
  "process_items ps po [] acc sub = Inr (acc, sub)"
| "process_items ps po (i # rest) acc sub =
     (case process_item ps po i of
        Inl f \<Rightarrow> Inl f
      | Inr oi \<Rightarrow> process_items ps po rest (acc @ [oi]) (sub + totalItemPrice oi))"

subsection \<open>Building and saving the order\<close>

text \<open>
  \<open>new Order({...})\<close> with the schema defaults: status and payment status pending, no
  discount, an empty history. The identifier is still missing. The street, the city and
  the state are those of the request body after the sanitizers of the route, trimmed.
\<close>

definition new_Order ::
  "env \<Rightarrow> string \<Rightarrow> create_request \<Rightarrow> order_item list \<Rightarrow> order_pricing \<Rightarrow> order_doc" where
  "new_Order e uid rq orderItems pr =
     \<lparr>doc = \<lparr>orderId = [], user = uid, items = orderItems,
              deliveryAddress =
                (req_deliveryAddress rq)
                  \<lparr>street := trim (street (req_deliveryAddress rq)),
                   city := trim (city (req_deliveryAddress rq)),
                   state := trim (state (req_deliveryAddress rq))\<rparr>,
              contactPhone = req_contactPhone rq,
              orderStatus = Pending, paymentStatus = PaymentPending,
              paymentMethod = req_paymentMethod rq,
              razorpayOrderId = None, razorpayPaymentId = None, razorpaySignature = None,
              pricing = pr,
              estimatedDeliveryTime = 0, actualDeliveryTime = None,
              orderNotes = req_orderNotes rq, statusHistory = [],
              createdAt = now e, updatedAt = now e\<rparr>,
      isNew = True, orderStatus_modified = False\<rparr>"

text \<open>
  \<open>calculateEstimatedDeliveryTime\<close>: the items hold the identifier of their pizza, which has
  no \<open>preparationTime\<close>, so each item counts for the default of 30 minutes.
\<close>

definition calculateEstimatedDeliveryTime :: "env \<Rightarrow> order_doc \<Rightarrow> order_doc" where
  "calculateEstimatedDeliveryTime e d =
     (let preparation = 30 * length (items (doc d));
          totalTime = max preparation 30 + 30
      in d\<lparr>doc := (doc d)\<lparr>estimatedDeliveryTime := now e + totalTime * 60000\<rparr>\<rparr>)"

text \<open>The pricing of the order and the document the handler builds, before it saves.\<close>

definition order_document ::
  "env \<Rightarrow> auth_user \<Rightarrow> create_request \<Rightarrow> order_item list \<Rightarrow> number \<Rightarrow> order_doc" where
  "order_document e u rq orderItems sub =
     (let fee = 50;
          taxRate = 5 / 100;
          tx = Math_round (sub * taxRate);
          tot = sub + fee + tx
      in calculateEstimatedDeliveryTime e
           (new_Order e (user_id u) rq orderItems
              \<lparr>subtotal = sub, deliveryFee = fee, tax = tx, discount = 0, total = tot\<rparr>))"

definition create_order :: "env \<Rightarrow> auth_user \<Rightarrow> create_request \<Rightarrow> store \<Rightarrow> response \<times> store" where
  "create_order e u rq s =
     (if \<not> isEmailVerified u
      then (Failure 403 ''Please verify your email before accessing this feature'', s)
      else if \<not> create_valid rq then (Failure 400 ''Validation failed'', s)
      else (case pizzaOptions s of
        None \<Rightarrow> (Failure 500 ''Pizza customization options not configured'', s)
      | Some po \<Rightarrow>
         (case process_items (pizzas s) po (req_items rq) [] 0 of
            Inl (code, msg) \<Rightarrow> (Failure code msg, s)
          | Inr (orderItems, sub) \<Rightarrow>
               (case save_order e (order_document e u rq orderItems sub) (orders s) of
                  Inl err \<Rightarrow> (errorHandler err, s)
                | Inr (d1, os1) \<Rightarrow>
                    if req_paymentMethod rq = Razorpay
                    then (case gateway_orderId e of
                            None \<Rightarrow> (Failure 500 ''Payment order creation failed'',
                                     s\<lparr>orders := os1\<rparr>)
                          | Some gid \<Rightarrow>
                              (case save_order e (d1\<lparr>doc := (doc d1)\<lparr>razorpayOrderId := Some gid\<rparr>\<rparr>) os1 of
                                 Inl err \<Rightarrow> (errorHandler err, s\<lparr>orders := os1\<rparr>)
                               | Inr (d2, os2) \<Rightarrow>
                                   (Success 201 ''Order created successfully'' (doc d2),
                                    s\<lparr>orders := os2\<rparr>)))
                    else (Success 201 ''Order created successfully'' (doc d1),
                          s\<lparr>orders := os1\<rparr>)))))"

section \<open>utils/razorpayService.js\<close>

text \<open>
  \<open>verifyPaymentSignature\<close>: the expected signature is the HMAC-SHA256 of
  \<open>orderId + '|' + paymentId\<close> under the secret; it is compared with the one received.
  Without a secret the primitive throws, which the method catches and reports as failure.
\<close>

definition verifyPaymentSignature :: "env \<Rightarrow> string \<Rightarrow> string \<Rightarrow> string \<Rightarrow> bool" where
  "verifyPaymentSignature e gatewayOrder gatewayPayment received =
     (case key_secret e of
        None \<Rightarrow> False
      | Some k \<Rightarrow> hmac_sha256_hex e k (gatewayOrder @ ''|'' @ gatewayPayment) = received)"

section \<open>routes/order.js: inventory consumption for a confirmed order\<close>

text \<open>\<open>findOne\<close> followed by a save of the document found: the first match is replaced.\<close>

fun update_first :: "('a \<Rightarrow> bool) \<Rightarrow> ('a \<Rightarrow> 'a) \<Rightarrow> 'a list \<Rightarrow> 'a list" where
  "update_first P f [] = []"
| "update_first P f (x # xs) = (if P x then f x # xs else x # update_first P f xs)"

text \<open>
  \<open>updateInventoryItem\<close>: the first active item whose name the pattern matches is consumed;
  an error of \<open>updateStock\<close> is caught and logged, and the stored item stays as it was.
  The name is \<open>None\<close> when the handler passes \<open>undefined\<close>: the pattern built from it is
  empty, and every name matches it.
\<close>

definition consume :: "env \<Rightarrow> number \<Rightarrow> string \<Rightarrow> inventory_item \<Rightarrow> inventory_item" where
  "consume e q oid it =
     (case updateStock (now e) ''consumption'' q (''Used in order '' @ oid) None (Some oid) it of
        Inl err \<Rightarrow> it
      | Inr it' \<Rightarrow> it')"

definition matches :: "env \<Rightarrow> string option \<Rightarrow> inventory_item \<Rightarrow> bool" where
  "matches e itemName it \<longleftrightarrow>
     (case itemName of None \<Rightarrow> True | Some n \<Rightarrow> regex_test_i e n (name it)) \<and> isActive it"

definition updateInventoryItem ::
  "env \<Rightarrow> string option \<Rightarrow> number \<Rightarrow> string \<Rightarrow> inventory_item list
    \<Rightarrow> inventory_item list" where
  "updateInventoryItem e itemName q oid ivs =
     update_first (matches e itemName) (consume e q oid) ivs"

text \<open>
  The names \<open>updateInventoryForOrder\<close> visits for one item, in its order. The base and the
  sauce are nested paths of the stored item: they read as an object even when none was
  stored, so the guards on them always pass and both are visited, with the name
  \<open>undefined\<close> when none was stored.
\<close>

definition ingredient_names :: "customization_snapshot \<Rightarrow> string option list" where
  "ingredient_names c =
     [map_option cust_name (base c), map_option cust_name (sauce c)]
     @ map (\<lambda>x. Some (cust_name x)) (cheese c)
     @ map (\<lambda>x. Some (cust_name x)) (vegetables c)
     @ map (\<lambda>x. Some (cust_name x)) (meats c)"

definition updateInventoryForItem ::
  "env \<Rightarrow> string \<Rightarrow> order_item \<Rightarrow> inventory_item list \<Rightarrow> inventory_item list" where
  "updateInventoryForItem e oid item ivs =
     fold (\<lambda>n. updateInventoryItem e n (of_int (quantity item)) oid)
       (ingredient_names (customizations item)) ivs"

definition needs_alert :: "inventory_item \<Rightarrow> bool" where
  "needs_alert it \<longleftrightarrow>
     currentStock it \<le> minStockLevel it \<and> isActive it \<and> \<not> lowStockAlertSent it"

text \<open>
  \<open>checkAndSendLowStockAlerts\<close>: when some item needs an alert and the mail goes out, the
  items listed are marked; a failing mail is caught before the marking.
\<close>

definition checkAndSendLowStockAlerts ::
  "env \<Rightarrow> inventory_item list \<times> event list \<Rightarrow> inventory_item list \<times> event list" where
  "checkAndSendLowStockAlerts e io =
     (let lowStockItems = filter needs_alert (fst io)
      in if lowStockItems \<noteq> [] \<and> email_succeeds e
         then (map (\<lambda>it. if needs_alert it then it\<lparr>lowStockAlertSent := True\<rparr> else it) (fst io),
               snd io @ [LowStockEmail (map name lowStockItems)])
         else io)"

definition consume_order :: "env \<Rightarrow> order \<Rightarrow> inventory_item list \<Rightarrow> inventory_item list" where
  "consume_order e ord ivs = fold (updateInventoryForItem e (orderId ord)) (items ord) ivs"

definition updateInventoryForOrder ::
  "env \<Rightarrow> order \<Rightarrow> inventory_item list \<times> event list \<Rightarrow> inventory_item list \<times> event list" where
  "updateInventoryForOrder e ord io =
     checkAndSendLowStockAlerts e (consume_order e ord (fst io), snd io)"

section \<open>routes/order.js: verify-payment and confirm-cod\<close>

text \<open>
  What both confirmation handlers do after their save: consume the inventory, send the
  confirmation mail (a failure is caught), and emit to the user and to the admin room.
\<close>

definition confirmed_effects :: "env \<Rightarrow> auth_user \<Rightarrow> order \<Rightarrow> string \<Rightarrow> store \<Rightarrow> store" where
  "confirmed_effects e u ord msg s =
     (let (ivs, out1) = updateInventoryForOrder e ord (inventory s, outbox s);
          out2 = (if email_succeeds e then out1 @ [OrderConfirmationEmail (orderId ord)]
                  else out1)
      in s\<lparr>inventory := ivs,
            outbox := out2 @ [OrderStatusUpdate (user_id u) (orderId ord) (orderStatus ord) msg,
                              NewOrder (orderId ord) (total (pricing ord)) (length (items ord))]\<rparr>)"

record verify_request =
  vr_orderId :: string
  vr_razorpayOrderId :: string
  vr_razorpayPaymentId :: string
  vr_razorpaySignature :: string

text \<open>What the handler changes on the loaded order before it saves.\<close>

definition payment_changes :: "verify_request \<Rightarrow> order \<Rightarrow> order_doc" where
  "payment_changes rq ord =
     set_orderStatus Confirmed
       (load (ord\<lparr>razorpayPaymentId := Some (vr_razorpayPaymentId rq),
                  razorpaySignature := Some (vr_razorpaySignature rq),
                  paymentStatus := PaymentCompleted\<rparr>))"

definition verify_payment :: "env \<Rightarrow> auth_user \<Rightarrow> verify_request \<Rightarrow> store \<Rightarrow> response \<times> store" where
  "verify_payment e u rq s =
     (if vr_orderId rq = [] \<or> vr_razorpayOrderId rq = [] \<or> vr_razorpayPaymentId rq = []
         \<or> vr_razorpaySignature rq = []
      then (Failure 400 ''Validation failed'', s)
      else (case find (\<lambda>x. orderId x = vr_orderId rq \<and> user x = user_id u
                            \<and> paymentMethod x = Razorpay) (orders s) of
        None \<Rightarrow> (Failure 404 ''Order not found'', s)
      | Some ord \<Rightarrow>
          if paymentStatus ord = PaymentCompleted
          then (Failure 400 ''Payment already completed'', s)
          else if \<not> verifyPaymentSignature e (vr_razorpayOrderId rq) (vr_razorpayPaymentId rq)
                      (vr_razorpaySignature rq)
          then (Failure 400 ''Payment verification failed'', s)
          else
            (case save_order e (payment_changes rq ord) (orders s) of
               Inl err \<Rightarrow> (errorHandler err, s)
             | Inr (d1, os1) \<Rightarrow>
                 (Success 200 ''Payment verified and order confirmed'' (doc d1),
                  confirmed_effects e u (doc d1)
                    ''Order confirmed and payment successful!'' (s\<lparr>orders := os1\<rparr>)))))"

definition confirm_cod :: "env \<Rightarrow> auth_user \<Rightarrow> string \<Rightarrow> store \<Rightarrow> response \<times> store" where
  "confirm_cod e u oid s =
     (case find (\<lambda>x. orderId x = oid \<and> user x = user_id u \<and> paymentMethod x = Cod)
             (orders s) of
        None \<Rightarrow> (Failure 404 ''Order not found'', s)
      | Some ord \<Rightarrow>
          if orderStatus ord \<noteq> Pending then (Failure 400 ''Order already processed'', s)
          else (case save_order e (set_orderStatus Confirmed (load ord)) (orders s) of
                  Inl err \<Rightarrow> (errorHandler err, s)
                | Inr (d1, os1) \<Rightarrow>
                    (Success 200 ''COD order confirmed successfully'' (doc d1),
                     confirmed_effects e u (doc d1)
                       ''Order confirmed! We will start preparing your pizza.''
                       (s\<lparr>orders := os1\<rparr>))))"

section \<open>routes/order.js: PUT /api/orders/:orderId/cancel\<close>

text \<open>\<open>req.body.reason || 'Cancelled by user'\<close>, the reason trimmed by its sanitizer.\<close>

definition or_default :: "string option \<Rightarrow> string \<Rightarrow> string" where
  "or_default given dflt =
     (case given of None \<Rightarrow> dflt | Some r \<Rightarrow> if trim r = [] then dflt else trim r)"

text \<open>What the handler changes on the loaded order before its first save.\<close>

definition cancel_changes :: "env \<Rightarrow> string option \<Rightarrow> order \<Rightarrow> order_doc" where
  "cancel_changes e reason ord =
     push_history
       \<lparr>sh_status = Cancelled, sh_timestamp = now e, updatedBy = None,
        sh_notes = or_default reason ''Cancelled by user''\<rparr>
       (set_orderStatus Cancelled (load ord))"

definition cancel_order ::
  "env \<Rightarrow> auth_user \<Rightarrow> string \<Rightarrow> string option \<Rightarrow> store \<Rightarrow> response \<times> store" where
  "cancel_order e u oid reason s =
     (case find (\<lambda>x. orderId x = oid \<and> user x = user_id u) (orders s) of
        None \<Rightarrow> (Failure 404 ''Order not found'', s)
      | Some ord \<Rightarrow>
          if orderStatus ord \<in> set [Delivered, Cancelled]
          then (Failure 400 ''Order cannot be cancelled'', s)
          else if orderStatus ord = OutForDelivery
          then (Failure 400
                  ''Order is out for delivery and cannot be cancelled. Please contact support.'',
                s)
          else
            (case save_order e (cancel_changes e reason ord) (orders s) of
               Inl err \<Rightarrow> (errorHandler err, s)
             | Inr (d1, os1) \<Rightarrow>
                 let emitted = OrderStatusUpdate (user_id u) (orderId (doc d1)) Cancelled
                                 ''Order cancelled successfully'';
                     refund = Refund (razorpayPaymentId (doc d1)) (total (pricing (doc d1)))
                                ''Order cancelled by user''
                 in if paymentStatus (doc d1) = PaymentCompleted
                       \<and> paymentMethod (doc d1) = Razorpay \<and> refund_succeeds e
                    then (case save_order e
                                 (d1\<lparr>doc := (doc d1)\<lparr>paymentStatus := PaymentRefunded\<rparr>\<rparr>)
                                 os1 of
                            Inl err \<Rightarrow>
                              (errorHandler err,
                               s\<lparr>orders := os1, outbox := outbox s @ [refund]\<rparr>)
                          | Inr (d2, os2) \<Rightarrow>
                              (Success 200 ''Order cancelled successfully'' (doc d2),
                               s\<lparr>orders := os2, outbox := outbox s @ [refund, emitted]\<rparr>))
                    else (Success 200 ''Order cancelled successfully'' (doc d1),
                          s\<lparr>orders := os1, outbox := outbox s @ [emitted]\<rparr>)))"

section \<open>routes/admin.js: PUT /api/admin/orders/:orderId/status\<close>

fun validTransitions :: "order_status \<Rightarrow> order_status list" where
  "validTransitions Pending = [Confirmed, Cancelled]"
| "validTransitions Confirmed = [Preparing, Cancelled]"
| "validTransitions Preparing = [Ready, Cancelled]"
| "validTransitions Ready = [OutForDelivery, Cancelled]"
| "validTransitions OutForDelivery = [Delivered]"
| "validTransitions Delivered = []"
| "validTransitions Cancelled = []"

text \<open>\<open>String.prototype.replace\<close> with a one-character pattern: the first occurrence only.\<close>

fun replace_first :: "char \<Rightarrow> char \<Rightarrow> string \<Rightarrow> string" where
  "replace_first a b [] = []"
| "replace_first a b (c # cs) = (if c = a then b # cs else c # replace_first a b cs)"

fun role_str :: "user_role \<Rightarrow> string" where
  "role_str UserRole = ''user''"
| "role_str AdminRole = ''admin''"

text \<open>The entry the handler pushes itself.\<close>

definition admin_entry ::
  "env \<Rightarrow> auth_user \<Rightarrow> order_status \<Rightarrow> order_status \<Rightarrow> string option \<Rightarrow> status_entry" where
  "admin_entry e u previousStatus st given =
     \<lparr>sh_status = st, sh_timestamp = now e, updatedBy = Some (user_id u),
      sh_notes = or_default given
        (''Status updated from '' @ status_str previousStatus @ '' to '' @ status_str st)\<rparr>"

text \<open>What the handler changes on the loaded order before it saves.\<close>

definition admin_changes ::
  "env \<Rightarrow> auth_user \<Rightarrow> order_status \<Rightarrow> string option \<Rightarrow> order \<Rightarrow> order_doc" where
  "admin_changes e u st given ord =
     (let d0 = push_history (admin_entry e u (orderStatus ord) st given)
                 (set_orderStatus st (load ord))
      in if st = Delivered
         then d0\<lparr>doc := (doc d0)\<lparr>actualDeliveryTime := Some (now e)\<rparr>\<rparr>
         else d0)"

definition admin_update_status ::
  "env \<Rightarrow> auth_user \<Rightarrow> string \<Rightarrow> order_status \<Rightarrow> string option \<Rightarrow> store \<Rightarrow> response \<times> store" where
  "admin_update_status e u oid st given s =
     (if role u \<noteq> AdminRole
      then (Failure 403 (''User role '' @ role_str (role u)
                          @ '' is not authorized to access this route''), s)
      else if (case given of None \<Rightarrow> False | Some n \<Rightarrow> length (trim n) > 200)
      then (Failure 400 ''Validation failed'', s)
      else (case find (\<lambda>x. orderId x = oid) (orders s) of
        None \<Rightarrow> (Failure 404 ''Order not found'', s)
      | Some ord \<Rightarrow>
          if st \<notin> set (validTransitions (orderStatus ord))
          then (Failure 400 (''Cannot change status from '' @ status_str (orderStatus ord)
                              @ '' to '' @ status_str st), s)
          else
            (case save_order e (admin_changes e u st given ord) (orders s) of
               Inl err \<Rightarrow> (errorHandler err, s)
             | Inr (d1, os1) \<Rightarrow>
                 (Success 200 ''Order status updated successfully'' (doc d1),
                  s\<lparr>orders := os1,
                     outbox := outbox s
                       @ (if email_succeeds e then [OrderStatusEmail (orderId (doc d1)) st]
                          else [])
                       @ [OrderStatusUpdate (user (doc d1)) (orderId (doc d1)) st
                            (''Order status updated to ''
                               @ replace_first CHR ''-'' CHR '' '' (status_str st)),
                          OrderStatusChanged (orderId (doc d1)) st (user_name u)]\<rparr>))))"

section \<open>The admin transition table, as the specification words it\<close>

fun allowed :: "order_status \<Rightarrow> order_status \<Rightarrow> bool" where
  "allowed Pending t \<longleftrightarrow> t = Confirmed \<or> t = Cancelled"
| "allowed Confirmed t \<longleftrightarrow> t = Preparing \<or> t = Cancelled"
| "allowed Preparing t \<longleftrightarrow> t = Ready \<or> t = Cancelled"
| "allowed Ready t \<longleftrightarrow> t = OutForDelivery \<or> t = Cancelled"
| "allowed OutForDelivery t \<longleftrightarrow> t = Delivered"
| "allowed Delivered t \<longleftrightarrow> False"
| "allowed Cancelled t \<longleftrightarrow> False"

section \<open>Seed data and sample requests\<close>

text \<open>
  A catalog, a pizza and inventory items after the seed script, and stand-ins for the two
  outside primitives: a keyed digest and a case-insensitive substring test.
\<close>

definition seed_options :: pizza_options where
  "seed_options =
     \<lparr>bases = [\<lparr>opt_name = ''Thin Crust'', opt_price = 0, opt_isAvailable = True\<rparr>,
               \<lparr>opt_name = ''Cheese Burst'', opt_price = 100, opt_isAvailable = True\<rparr>],
      sauces = [\<lparr>opt_name = ''Tomato Sauce'', opt_price = 0, opt_isAvailable = True\<rparr>,
                \<lparr>opt_name = ''Pesto Sauce'', opt_price = 60, opt_isAvailable = False\<rparr>],
      cheeses = [\<lparr>opt_name = ''Mozzarella'', opt_price = 0, opt_isAvailable = True\<rparr>,
                 \<lparr>opt_name = ''Cheddar'', opt_price = 40, opt_isAvailable = True\<rparr>],
      opt_vegetables = [\<lparr>opt_name = ''Onions'', opt_price = 20, opt_isAvailable = True\<rparr>],
      opt_meats = [\<lparr>opt_name = ''Ham'', opt_price = 85, opt_isAvailable = True\<rparr>]\<rparr>"

definition margherita :: pizza where
  "margherita =
     \<lparr>pizza_id = ''64b7f0c2a1d3e4f5a6b7c8d9'', pizza_name = ''Margherita'', basePrice = 299,
      sizes = [\<lparr>so_size = Small, priceMultiplier = 8 / 10\<rparr>,
               \<lparr>so_size = Medium, priceMultiplier = 1\<rparr>,
               \<lparr>so_size = Large, priceMultiplier = 13 / 10\<rparr>,
               \<lparr>so_size = ExtraLarge, priceMultiplier = 16 / 10\<rparr>],
      isAvailable = True, preparationTime = 15\<rparr>"

definition stocked :: "string \<Rightarrow> number \<Rightarrow> bool \<Rightarrow> inventory_item" where
  "stocked n stock active =
     \<lparr>name = n, category = ''cheese'', currentStock = stock,
      minStockLevel = 3, maxStockLevel = 30, pricePerUnit = 500, lastRestocked = 0,
      isActive = active, lowStockAlertSent = False, stockHistory = [], inv_updatedAt = 0\<rparr>"

definition seed_store :: store where
  "seed_store =
     \<lparr>pizzas = [margherita], pizzaOptions = Some seed_options, orders = [],
      inventory = [stocked ''Mozzarella'' 25 True, stocked ''Cheddar'' 15 False],
      outbox = []\<rparr>"

definition sample_digest :: "string \<Rightarrow> string \<Rightarrow> string" where
  "sample_digest k m = rev k @ m"

definition lower :: "char \<Rightarrow> char" where
  "lower c =
     (case map_of (zip ''ABCDEFGHIJKLMNOPQRSTUVWXYZ'' ''abcdefghijklmnopqrstuvwxyz'') c of
        None \<Rightarrow> c
      | Some l \<Rightarrow> l)"

fun starts_with :: "string \<Rightarrow> string \<Rightarrow> bool" where
  "starts_with [] s = True"
| "starts_with (p # ps) [] = False"
| "starts_with (p # ps) (c # cs) \<longleftrightarrow> p = c \<and> starts_with ps cs"

fun contains :: "string \<Rightarrow> string \<Rightarrow> bool" where
  "contains p [] = starts_with p []"
| "contains p (c # cs) \<longleftrightarrow> starts_with p (c # cs) \<or> contains p cs"

definition substring_ci :: "string \<Rightarrow> string \<Rightarrow> bool" where
  "substring_ci p s = contains (map lower p) (map lower s)"

definition sample_env :: env where
  "sample_env =
     \<lparr>now = 1000, fresh_orderId = ''PZ000001042'', gateway_orderId = None,
      refund_succeeds = True, email_succeeds = True, key_secret = Some ''key'',
      hmac_sha256_hex = sample_digest, regex_test_i = substring_ci\<rparr>"

definition customer :: auth_user where
  "customer =
     \<lparr>user_id = ''u1'', user_name = ''Asha'', role = UserRole, isEmailVerified = True\<rparr>"

definition admin :: auth_user where
  "admin =
     \<lparr>user_id = ''a1'', user_name = ''Admin User'', role = AdminRole, isEmailVerified = True\<rparr>"

definition home :: address where
  "home = \<lparr>street = ''1 Main Road'', city = ''Pune'', state = ''MH'', zipCode = ''411001''\<rparr>"

text \<open>The pricing scenario: one medium Margherita, twice, no customizations.\<close>

definition scenario_request :: "payment_method \<Rightarrow> create_request" where
  "scenario_request m =
     \<lparr>req_items = [\<lparr>ri_pizza = ''64b7f0c2a1d3e4f5a6b7c8d9'', ri_quantity = 2, ri_size = Medium,
                     ri_customizations = None\<rparr>],
      req_deliveryAddress = home, req_contactPhone = ''9999999999'',
      req_paymentMethod = m, req_orderNotes = None\<rparr>"

text \<open>An item whose selections include an unknown sauce and an unavailable one.\<close>

definition custom_item :: req_item where
  "custom_item =
     \<lparr>ri_pizza = ''64b7f0c2a1d3e4f5a6b7c8d9'', ri_quantity = 3, ri_size = Large,
      ri_customizations = Some
        \<lparr>req_base = Some ''Cheese Burst'', req_sauce = Some ''Pesto Sauce'',
         req_cheese = [''Cheddar'', ''Blue Cheese'', ''Mozzarella''],
         req_vegetables = [''Onions''], req_meats = []\<rparr>\<rparr>"

text \<open>
  A stored order of the customer, in a given state: a base, a sauce and the cheeses
  named.
\<close>

definition stored_order ::
  "payment_method \<Rightarrow> order_status \<Rightarrow> payment_status \<Rightarrow> string list \<Rightarrow> order" where
  "stored_order m st pst cheeseNames =
     \<lparr>orderId = ''PZ000000007'', user = ''u1'',
      items = [\<lparr>oi_pizza = ''64b7f0c2a1d3e4f5a6b7c8d9'', quantity = 2, oi_size = Medium,
                customizations =
                  \<lparr>base = Some \<lparr>cust_name = ''Thin Crust'', cust_price = 0\<rparr>,
                   sauce = Some \<lparr>cust_name = ''Tomato Sauce'', cust_price = 0\<rparr>,
                   cheese = map (\<lambda>n. \<lparr>cust_name = n, cust_price = 40\<rparr>) cheeseNames,
                   vegetables = [], meats = []\<rparr>,
                itemPrice = 299 + 40 * of_nat (length cheeseNames),
                totalItemPrice = (299 + 40 * of_nat (length cheeseNames)) * 2\<rparr>],
      deliveryAddress = home, contactPhone = ''9999999999'',
      orderStatus = st, paymentStatus = pst, paymentMethod = m,
      razorpayOrderId = (if m = Razorpay then Some ''order_1'' else None),
      razorpayPaymentId = None, razorpaySignature = None,
      pricing = \<lparr>subtotal = 598, deliveryFee = 50, tax = 30, discount = 0, total = 678\<rparr>,
      estimatedDeliveryTime = 3600500, actualDeliveryTime = None, orderNotes = None,
      statusHistory = [], createdAt = 500, updatedAt = 500\<rparr>"

definition store_with :: "order \<Rightarrow> store" where
  "store_with ord = seed_store\<lparr>orders := [ord]\<rparr>"

definition valid_payment :: verify_request where
  "valid_payment =
     \<lparr>vr_orderId = ''PZ000000007'', vr_razorpayOrderId = ''order_1'',
      vr_razorpayPaymentId = ''pay_1'', vr_razorpaySignature = ''yekorder_1|pay_1''\<rparr>"

text \<open>The item of the pricing scenario, priced.\<close>

definition scenario_items :: "order_item list" where
  "scenario_items =
     [\<lparr>oi_pizza = ''64b7f0c2a1d3e4f5a6b7c8d9'', quantity = 2, oi_size = Medium,
       customizations =
         \<lparr>base = None, sauce = None, cheese = [], vegetables = [], meats = []\<rparr>,
       itemPrice = 299, totalItemPrice = 598\<rparr>]"

text \<open>The stored sample order with neither base nor sauce.\<close>

definition bare_order :: "string list \<Rightarrow> order" where
  "bare_order cheeseNames =
     (stored_order Razorpay Pending PaymentPending cheeseNames)
       \<lparr>items :=
          map (\<lambda>i. i\<lparr>customizations := (customizations i)\<lparr>base := None, sauce := None\<rparr>\<rparr>)
            (items (stored_order Razorpay Pending PaymentPending cheeseNames))\<rparr>"

section \<open>The kept selections, as the specification words them\<close>

text \<open>
  The catalog entries a selected name is priced by: those of that name that are marked
  available, the first one counting. A base or a sauce is a single optional name.
\<close>

definition resolve :: "option_entry list \<Rightarrow> string \<Rightarrow> customization list" where
  "resolve opts n = map snapshot (take 1 (filter (\<lambda>b. opt_name b = n \<and> opt_isAvailable b) opts))"

definition selected :: "option_entry list \<Rightarrow> string list \<Rightarrow> customization list" where
  "selected opts ns = concat (map (resolve opts) ns)"

definition single_name :: "string option \<Rightarrow> string list" where
  "single_name sel = (case sel of None \<Rightarrow> [] | Some n \<Rightarrow> if n = [] then [] else [n])"

definition opt_list :: "'a option \<Rightarrow> 'a list" where
  "opt_list x = (case x of None \<Rightarrow> [] | Some v \<Rightarrow> [v])"

definition stored :: "customization_snapshot \<Rightarrow> customization list" where
  "stored c = opt_list (base c) @ opt_list (sauce c) @ cheese c @ vegetables c @ meats c"

section \<open>Auxiliary notions for the order lifecycle\<close>

text \<open>The order a save of a loaded document stores.\<close>

definition saved :: "env \<Rightarrow> order_doc \<Rightarrow> order" where
  "saved e d =
     (doc d)\<lparr>updatedAt := now e,
             statusHistory := statusHistory (doc d) @
               (if orderStatus_modified d then [hook_entry e (orderStatus (doc d))] else [])\<rparr>"

text \<open>A run of admin updates on the sample order, one after the other.\<close>

definition admin_chain :: "order_status list \<Rightarrow> store \<Rightarrow> store" where
  "admin_chain sts s =
     fold (\<lambda>st s. snd (admin_update_status sample_env admin ''PZ000000007'' st None s)) sts s"

text \<open>The order a successful cancellation stores, and the same order after a refund.\<close>

definition cancelled :: "env \<Rightarrow> string option \<Rightarrow> order \<Rightarrow> order" where
  "cancelled e reason ord = saved e (cancel_changes e reason ord)"

definition refunded :: "env \<Rightarrow> order \<Rightarrow> order" where
  "refunded e ord = ord\<lparr>paymentStatus := PaymentRefunded, updatedAt := now e\<rparr>"

text \<open>The sample order once its payment is verified, and the store after that request.\<close>

definition paid_order :: order where
  "paid_order =
     (stored_order Razorpay Confirmed PaymentCompleted [''Mozzarella''])
       \<lparr>razorpayPaymentId := Some ''pay_1'', razorpaySignature := Some ''yekorder_1|pay_1'',
        statusHistory := [hook_entry sample_env Confirmed], updatedAt := 1000\<rparr>"

definition after_payment :: store where
  "after_payment =
     snd (verify_payment sample_env customer valid_payment
            (store_with (stored_order Razorpay Pending PaymentPending [''Mozzarella''])))"

text \<open>Whether a response reports success.\<close>

fun succeeded :: "response \<Rightarrow> bool" where
  "succeeded (Success code msg ord) = True"
| "succeeded (Failure code msg) = False"

text \<open>The store once an admin has confirmed the sample order, its payment still pending.\<close>

definition admin_confirmed :: store where
  "admin_confirmed =
     snd (admin_update_status sample_env admin ''PZ000000007'' Confirmed None
            (store_with (stored_order Razorpay Pending PaymentPending [])))"

section \<open>Inventory consumption, as the specification words it\<close>

text \<open>
  The consumption requests of an order: one for every customization stored on every item,
  a name with the item's quantity; the requests applied one after the other; and what a
  consumption makes of the item it reaches.
\<close>

definition order_consumptions :: "order \<Rightarrow> (string \<times> number) list" where
  "order_consumptions ord =
     concat (map (\<lambda>item. map (\<lambda>c. (cust_name c, of_int (quantity item)))
                               (stored (customizations item)))
                 (items ord))"

definition stores_base_and_sauce :: "order \<Rightarrow> bool" where
  "stores_base_and_sauce ord \<longleftrightarrow>
     list_all (\<lambda>item. base (customizations item) \<noteq> None \<and> sauce (customizations item) \<noteq> None)
       (items ord)"

definition consume_all ::
  "env \<Rightarrow> string \<Rightarrow> (string \<times> number) list \<Rightarrow> inventory_item list \<Rightarrow> inventory_item list" where
  "consume_all e oid reqs ivs =
     fold (\<lambda>(n, q). updateInventoryItem e (Some n) q oid) reqs ivs"

definition consumed :: "env \<Rightarrow> number \<Rightarrow> string \<Rightarrow> inventory_item \<Rightarrow> inventory_item" where
  "consumed e q oid it =
     it\<lparr>currentStock := max 0 (currentStock it - q),
        stockHistory := stockHistory it @
          [\<lparr>se_action = ''consumption'', se_quantity = q,
            previousStock = currentStock it, newStock = max 0 (currentStock it - q),
            se_reason = ''Used in order '' @ oid, performedBy = None,
            se_timestamp = now e, se_orderId = Some oid\<rparr>],
        inv_updatedAt := now e\<rparr>"

section \<open>Inventory ledger: stock status\<close>

text \<open>
  C7: the stock status of an item is critical when the stock is at most half the minimum
  level, else low when it is at most the minimum level, else overstocked when it reaches
  the maximum level, else normal; with minimum 20 and maximum 200 the stocks 10, 20, 250
  and 100 are critical, low, overstocked and normal.
\<close>

theorem getStockStatus_classification:
  "getStockStatus it =
     (if currentStock it \<le> minStockLevel it / 2 then ''critical''
      else if currentStock it \<le> minStockLevel it then ''low''
      else if currentStock it \<ge> maxStockLevel it then ''overstocked''
      else ''normal'')
   \<and> getStockStatus (sample_item 10) = ''critical''
   \<and> getStockStatus (sample_item 20) = ''low''
   \<and> getStockStatus (sample_item 250) = ''overstocked''
   \<and> getStockStatus (sample_item 100) = ''normal''"
  by (simp add: getStockStatus_def isCriticallyLowStock_def isLowStock_def sample_item_def)

section \<open>Inventory ledger: stock adjustment\<close>

text \<open>
  C4: for an inventory item (maximum level above minimum level) and an adjustment with a
  non-negative quantity and one of the four actions, \<open>updateStock\<close> returns the item with:
  the stock increased by the quantity on restock, decreased by it on consumption and
  wastage, set to it on adjustment, and in every case clamped at zero; the low-stock alert
  flag cleared and the restock time stamped on restock (and both untouched otherwise);
  and exactly one history entry appended, holding the previous and the new stock.
\<close>

theorem updateStock_adjusts_and_records:
  assumes "0 \<le> q"
    and "minStockLevel it < maxStockLevel it"
    and "action \<in> stock_actions"
  shows "\<exists>it'. updateStock t action q reason by oid it = Inr it'
     \<and> currentStock it' = max 0 (stock_after action q (currentStock it))
     \<and> 0 \<le> currentStock it'
     \<and> stockHistory it' = stockHistory it @
          [\<lparr>se_action = action, se_quantity = q,
            previousStock = currentStock it, newStock = currentStock it',
            se_reason = reason, performedBy = by, se_timestamp = t, se_orderId = oid\<rparr>]
     \<and> (action = ''restock'' \<longrightarrow> \<not> lowStockAlertSent it' \<and> lastRestocked it' = t)
     \<and> (action \<noteq> ''restock'' \<longrightarrow>
          lowStockAlertSent it' = lowStockAlertSent it \<and> lastRestocked it' = lastRestocked it)"
  using assms
  by (auto simp: updateStock_def updateStock_doc_def inventory_pre_save_def stock_after_def
      stock_actions_def Let_def)

theorem updateStock_adjusts_and_records_witness:
  "\<exists>it'. updateStock 7 ''consumption'' 5 ''used'' None None (sample_item 3) = Inr it'
     \<and> currentStock it' = 0
     \<and> stockHistory it' =
          [\<lparr>se_action = ''consumption'', se_quantity = 5,
            previousStock = 3, newStock = 0,
            se_reason = ''used'', performedBy = None, se_timestamp = 7, se_orderId = None\<rparr>]"
  using updateStock_adjusts_and_records
    [of 5 "sample_item 3" "''consumption''" 7 "''used''" None None]
  by (auto simp: sample_item_def stock_after_def stock_actions_def)

section \<open>Shared facts about the error middleware and the validation\<close>

lemma errorHandler_fails [simp]: "errorHandler err \<noteq> Success code msg ord"
  by (cases err) auto

lemma validate_order_identified [simp]: "orderId ord \<noteq> [] \<Longrightarrow> validate_order ord = []"
  by (simp add: validate_order_def)

section \<open>Order creation: the pricing and the refused save\<close>

lemma Math_round_scenario: "Math_round (299 / 10) = 30"
  by (simp add: Math_round_def floor_eq_iff)

lemma process_items_subtotal:
  "process_items ps po is acc sub = Inr (its, sub') \<Longrightarrow>
   sub' - sum_list (map totalItemPrice its) = sub - sum_list (map totalItemPrice acc)"
  by (induction "is" arbitrary: acc sub) (auto split: sum.splits)

text \<open>
  The document the handler builds for the items it has priced: the subtotal is the sum of
  the items' totals, the tax is the subtotal times 0.05 rounded, the fee is 50, the total
  is subtotal plus tax plus fee minus discount. It has no identifier yet.
\<close>

lemma order_document_pricing:
  assumes "process_items ps po is [] 0 = Inr (its, sub)"
  shows "subtotal (pricing (doc (order_document e u rq its sub)))
           = sum_list (map totalItemPrice (items (doc (order_document e u rq its sub))))"
    and "tax (pricing (doc (order_document e u rq its sub)))
           = Math_round (subtotal (pricing (doc (order_document e u rq its sub))) * (5 / 100))"
    and "deliveryFee (pricing (doc (order_document e u rq its sub))) = 50"
    and "total (pricing (doc (order_document e u rq its sub)))
           = subtotal (pricing (doc (order_document e u rq its sub)))
             + tax (pricing (doc (order_document e u rq its sub)))
             + deliveryFee (pricing (doc (order_document e u rq its sub)))
             - discount (pricing (doc (order_document e u rq its sub)))"
  using process_items_subtotal [OF assms]
  by (simp_all add: order_document_def calculateEstimatedDeliveryTime_def new_Order_def Let_def)

lemma order_document_unsaved:
  "orderId (doc (order_document e u rq its sub)) = []"
  by (simp add: order_document_def calculateEstimatedDeliveryTime_def new_Order_def Let_def)

text \<open>The save of the document built is refused, so every request ends in an error.\<close>

lemma save_order_document:
  "save_order e (order_document e u rq its sub) os =
     Inl (ValidationError [''Path `orderId` is required.''])"
  by (simp add: save_order_def validate_order_def order_document_unsaved)

lemma create_order_always_refused:
  "\<exists>code msg. create_order e u rq s = (Failure code msg, s)"
  by (auto simp: create_order_def save_order_document
      split: option.splits sum.splits prod.splits)

lemmas create_eval =
  create_order_def create_valid_def scenario_request_def home_def isMongoId_def
  digits_only_def trim_def whitespace_def customer_def seed_store_def sample_env_def
  margherita_def process_item_def process_customizations_def save_order_document

lemma scenario_priced:
  "process_items (pizzas seed_store) seed_options (req_items (scenario_request m)) [] 0
     = Inr (scenario_items, 598)"
  by (simp add: seed_store_def scenario_request_def margherita_def process_item_def
      process_customizations_def scenario_items_def)

text \<open>
  C1: at the scenario of the claim (base price 299, multiplier 1.0, no customizations,
  quantity 2) the handler prices the item and builds the order with subtotal 598, tax 30,
  delivery fee 50 and total 678, as the claim states; but the save of that order is
  refused, since the required \<open>orderId\<close> is filled in only by a hook that runs after the
  validation: the response is the error 400 and no order is stored. No request at all
  gets an order created.
\<close>

theorem create_order_refused:
  "process_items (pizzas seed_store) seed_options (req_items (scenario_request Cod)) [] 0
     = Inr (scenario_items, 598)
   \<and> pricing (doc (order_document sample_env customer (scenario_request Cod) scenario_items 598))
     = \<lparr>subtotal = 598, deliveryFee = 50, tax = 30, discount = 0, total = 678\<rparr>
   \<and> create_order sample_env customer (scenario_request Cod) seed_store =
       (Failure 400 ''Path `orderId` is required.'', seed_store)
   \<and> (\<exists>code msg. create_order e u rq s = (Failure code msg, s))"
proof -
  have "pricing (doc (order_document sample_env customer (scenario_request Cod) scenario_items 598))
     = \<lparr>subtotal = 598, deliveryFee = 50, tax = 30, discount = 0, total = 678\<rparr>"
    by (simp add: order_document_def calculateEstimatedDeliveryTime_def new_Order_def Let_def
        Math_round_scenario)
  moreover have "create_order sample_env customer (scenario_request Cod) seed_store =
       (Failure 400 ''Path `orderId` is required.'', seed_store)"
    by (simp add: create_eval)
  ultimately show ?thesis
    using scenario_priced create_order_always_refused by blast
qed

section \<open>Pricing engine: the unit price of an item\<close>

lemma resolve_find:
  "resolve opts n = (case find_option opts n of None \<Rightarrow> [] | Some b \<Rightarrow> [snapshot b])"
  by (induction opts) (auto simp: resolve_def find_option_def)

lemma resolve_empty_iff:
  "resolve opts n = [] \<longleftrightarrow> (\<forall>b \<in> set opts. opt_name b = n \<longrightarrow> \<not> opt_isAvailable b)"
  by (auto simp: resolve_def filter_empty_conv take_Suc split: list.splits)

lemma resolve_from_catalog:
  "x \<in> set (resolve opts n) \<Longrightarrow>
     \<exists>b \<in> set opts. opt_name b = n \<and> opt_isAvailable b \<and> x = snapshot b"
proof -
  assume "x \<in> set (resolve opts n)"
  then have "x \<in> snapshot ` set (filter (\<lambda>b. opt_name b = n \<and> opt_isAvailable b) opts)"
    unfolding resolve_def using set_take_subset by fastforce
  then show ?thesis by auto
qed

lemma fold_process_name:
  "fold (process_name opts) ns (acc, cost) =
     (acc @ selected opts ns, cost + sum_list (map cust_price (selected opts ns)))"
proof (induction ns arbitrary: acc cost)
  case Nil
  then show ?case by (simp add: selected_def)
next
  case (Cons n ns)
  have step: "process_name opts n (acc, cost) =
      (acc @ resolve opts n, cost + sum_list (map cust_price (resolve opts n)))"
    by (cases "find_option opts n") (simp_all add: process_name_def resolve_find snapshot_def)
  show ?case
    by (simp add: step Cons.IH) (simp add: selected_def)
qed

lemma process_names_selected:
  "process_names opts ns cost =
     (selected opts ns, cost + sum_list (map cust_price (selected opts ns)))"
  by (simp add: process_names_def fold_process_name)

lemma process_single_selected:
  "process_single opts sel cost = (b, cost') \<Longrightarrow>
     opt_list b = selected opts (single_name sel)
     \<and> cost' = cost + sum_list (map cust_price (selected opts (single_name sel)))"
  by (auto simp: process_single_def single_name_def selected_def resolve_find opt_list_def
      snapshot_def split: option.splits if_splits)

text \<open>
  C8: for every requested item whose pizza is found and available and whose size the pizza
  offers, the handler prices the item without error, whatever names are selected: the
  unit price is the base price times the size multiplier plus the prices of the stored
  customizations, and the stored customizations are exactly the selected names that have
  an available catalog entry, each with that entry's price. A name with no available
  entry resolves to nothing: it is in neither the price nor the snapshot.
\<close>

theorem process_item_unit_price:
  assumes "find (\<lambda>p. pizza_id p = ri_pizza i) ps = Some p"
    and "isAvailable p"
    and "find (\<lambda>x. so_size x = ri_size i) (sizes p) = Some so"
  shows "\<exists>oi. process_item ps po i = Inr oi
     \<and> itemPrice oi = basePrice p * priceMultiplier so
          + sum_list (map cust_price (stored (customizations oi)))
     \<and> (case ri_customizations i of
          None \<Rightarrow> stored (customizations oi) = []
        | Some c \<Rightarrow>
            opt_list (base (customizations oi)) = selected (bases po) (single_name (req_base c))
          \<and> opt_list (sauce (customizations oi)) = selected (sauces po) (single_name (req_sauce c))
          \<and> cheese (customizations oi) = selected (cheeses po) (req_cheese c)
          \<and> vegetables (customizations oi) = selected (opt_vegetables po) (req_vegetables c)
          \<and> meats (customizations oi) = selected (opt_meats po) (req_meats c))
     \<and> (\<forall>opts n. (resolve opts n = []) =
           (\<forall>b \<in> set opts. opt_name b = n \<longrightarrow> \<not> opt_isAvailable b))
     \<and> (\<forall>opts n. \<forall>x \<in> set (resolve opts n).
           \<exists>b \<in> set opts. opt_name b = n \<and> opt_isAvailable b \<and> x = snapshot b)"
proof -
  have main: "\<exists>oi. process_item ps po i = Inr oi
     \<and> itemPrice oi = basePrice p * priceMultiplier so
          + sum_list (map cust_price (stored (customizations oi)))
     \<and> (case ri_customizations i of
          None \<Rightarrow> stored (customizations oi) = []
        | Some c \<Rightarrow>
            opt_list (base (customizations oi)) = selected (bases po) (single_name (req_base c))
          \<and> opt_list (sauce (customizations oi)) = selected (sauces po) (single_name (req_sauce c))
          \<and> cheese (customizations oi) = selected (cheeses po) (req_cheese c)
          \<and> vegetables (customizations oi) = selected (opt_vegetables po) (req_vegetables c)
          \<and> meats (customizations oi) = selected (opt_meats po) (req_meats c))"
  proof (cases "ri_customizations i")
    case None
    then show ?thesis
      using assms
      by (simp add: process_item_def process_customizations_def stored_def opt_list_def Let_def)
  next
    case (Some c)
    obtain b c1 where b: "process_single (bases po) (req_base c) 0 = (b, c1)"
      by (cases "process_single (bases po) (req_base c) 0")
    obtain sa c2 where sa: "process_single (sauces po) (req_sauce c) c1 = (sa, c2)"
      by (cases "process_single (sauces po) (req_sauce c) c1")
    note b' = process_single_selected [OF b] and sa' = process_single_selected [OF sa]
    show ?thesis
      using assms Some b sa b' sa'
      by (simp add: process_item_def process_customizations_def stored_def
          process_names_selected Let_def)
  qed
  with resolve_empty_iff resolve_from_catalog show ?thesis by blast
qed

lemma custom_item_run:
  "process_item [margherita] seed_options custom_item =
     Inr \<lparr>oi_pizza = ''64b7f0c2a1d3e4f5a6b7c8d9'', quantity = 3, oi_size = Large,
          customizations =
            \<lparr>base = Some \<lparr>cust_name = ''Cheese Burst'', cust_price = 100\<rparr>,
             sauce = None,
             cheese = [\<lparr>cust_name = ''Cheddar'', cust_price = 40\<rparr>,
                       \<lparr>cust_name = ''Mozzarella'', cust_price = 0\<rparr>],
             vegetables = [\<lparr>cust_name = ''Onions'', cust_price = 20\<rparr>],
             meats = []\<rparr>,
          itemPrice = 5487 / 10, totalItemPrice = 16461 / 10\<rparr>"
  by (simp add: process_item_def margherita_def custom_item_def seed_options_def
      process_customizations_def process_single_def process_names_def process_name_def
      find_option_def snapshot_def Let_def)

theorem process_item_unit_price_witness:
  "\<exists>oi. process_item [margherita] seed_options custom_item = Inr oi
     \<and> itemPrice oi = 299 * (13 / 10) + (100 + 40 + 0 + 20)
     \<and> sauce (customizations oi) = None
     \<and> cheese (customizations oi) = [\<lparr>cust_name = ''Cheddar'', cust_price = 40\<rparr>,
                                      \<lparr>cust_name = ''Mozzarella'', cust_price = 0\<rparr>]
     \<and> selected (sauces seed_options) [''Pesto Sauce''] = []
     \<and> selected (cheeses seed_options) [''Cheddar'', ''Blue Cheese'', ''Mozzarella'']
         = cheese (customizations oi)"
proof -
  have h1: "find (\<lambda>p. pizza_id p = ri_pizza custom_item) [margherita] = Some margherita"
    by (simp add: margherita_def custom_item_def)
  have h2: "isAvailable margherita"
    by (simp add: margherita_def)
  have h3: "find (\<lambda>x. so_size x = ri_size custom_item) (sizes margherita)
              = Some \<lparr>so_size = Large, priceMultiplier = 13 / 10\<rparr>"
    by (simp add: margherita_def custom_item_def)
  from process_item_unit_price [OF h1 h2 h3, of seed_options]
  obtain oi where oi: "process_item [margherita] seed_options custom_item = Inr oi"
    and sel: "cheese (customizations oi) = selected (cheeses seed_options) (req_cheese (the (ri_customizations custom_item)))"
    by (auto simp: custom_item_def)
  have pesto: "selected (sauces seed_options) [''Pesto Sauce''] = []"
    by (simp add: selected_def resolve_def seed_options_def)
  from oi sel pesto show ?thesis
    by (auto simp: custom_item_run) (simp add: custom_item_def)
qed

section \<open>Order creation when the gateway fails\<close>



section \<open>Order status state machine: admin updates\<close>

lemma allowed_validTransitions: "allowed a b \<longleftrightarrow> b \<in> set (validTransitions a)"
  by (cases a) auto

lemma find_holds: "find P xs = Some x \<Longrightarrow> P x"
  by (induction xs) (auto split: if_splits)

lemma find_replace_order:
  assumes "find P os = Some ord" and "P new" and "\<And>x. P x \<Longrightarrow> orderId x = orderId new"
  shows "find P (replace_order new os) = Some new"
  using assms(1)
proof (induction os)
  case Nil
  then show ?case by simp
next
  case (Cons a os)
  show ?case
  proof (cases "orderId a = orderId new")
    case True
    then show ?thesis using assms(2) by (simp add: replace_order_def)
  next
    case False
    then have "\<not> P a" using assms(3) by blast
    with Cons False show ?thesis by (simp add: replace_order_def)
  qed
qed

lemma save_order_loaded:
  assumes "\<not> isNew d" and "orderId (doc d) \<noteq> []"
  shows "save_order e d os =
     Inr (\<lparr>doc = saved e d, isNew = False, orderStatus_modified = False\<rparr>,
          replace_order (saved e d) os)"
  using assms
  by (simp add: save_order_def order_pre_save_def push_history_def saved_def Let_def)

lemma admin_changes_doc:
  assumes "st \<noteq> orderStatus ord"
  shows "admin_changes e u st given ord =
     \<lparr>doc = ord\<lparr>orderStatus := st,
                 statusHistory := statusHistory ord @ [admin_entry e u (orderStatus ord) st given],
                 actualDeliveryTime :=
                   (if st = Delivered then Some (now e) else actualDeliveryTime ord)\<rparr>,
      isNew = False, orderStatus_modified = True\<rparr>"
  using assms
  by (simp add: admin_changes_def push_history_def set_orderStatus_def load_def Let_def)

lemma validTransitions_changes: "st \<in> set (validTransitions a) \<Longrightarrow> st \<noteq> a"
  by (cases a) auto

lemma admin_accepts:
  assumes "role u = AdminRole"
    and "case given of None \<Rightarrow> True | Some n \<Rightarrow> length (trim n) \<le> 200"
    and "find (\<lambda>x. orderId x = oid) (orders s) = Some ord"
    and "oid \<noteq> []"
    and "st \<in> set (validTransitions (orderStatus ord))"
  shows "admin_update_status e u oid st given s =
     (Success 200 ''Order status updated successfully'' (saved e (admin_changes e u st given ord)),
      s\<lparr>orders := replace_order (saved e (admin_changes e u st given ord)) (orders s),
         outbox := outbox s
           @ (if email_succeeds e then [OrderStatusEmail oid st] else [])
           @ [OrderStatusUpdate (user ord) oid st
                (''Order status updated to '' @ replace_first CHR ''-'' CHR '' '' (status_str st)),
              OrderStatusChanged oid st (user_name u)]\<rparr>)"
proof -
  have oid: "orderId ord = oid"
    using find_holds [OF assms(3)] .
  have valid: "\<not> (case given of None \<Rightarrow> False | Some n \<Rightarrow> length (trim n) > 200)"
    using assms(2) by (cases given) auto
  note ch = admin_changes_doc [OF validTransitions_changes [OF assms(5)], of e u given]
  have sv: "save_order e (admin_changes e u st given ord) (orders s) =
     Inr (\<lparr>doc = saved e (admin_changes e u st given ord), isNew = False,
           orderStatus_modified = False\<rparr>,
          replace_order (saved e (admin_changes e u st given ord)) (orders s))"
    by (rule save_order_loaded) (simp_all add: ch oid assms(4))
  have flds: "orderId (saved e (admin_changes e u st given ord)) = oid"
    "user (saved e (admin_changes e u st given ord)) = user ord"
    by (simp_all add: saved_def ch oid)
  show ?thesis
    using assms(1,3,5) valid
    by (simp add: admin_update_status_def sv flds)
qed

lemma admin_saved_props:
  assumes "st \<in> set (validTransitions (orderStatus ord))"
  shows "orderStatus (saved e (admin_changes e u st given ord)) = st"
    and "orderId (saved e (admin_changes e u st given ord)) = orderId ord"
    and "statusHistory (saved e (admin_changes e u st given ord)) =
           statusHistory ord @ [admin_entry e u (orderStatus ord) st given, hook_entry e st]"
    and "actualDeliveryTime (saved e (admin_changes e u st given ord)) =
           (if st = Delivered then Some (now e) else actualDeliveryTime ord)"
  by (simp_all add: saved_def admin_changes_doc [OF validTransitions_changes [OF assms]])

text \<open>
  C2: for an admin request (valid notes) on a stored order, the new status is accepted
  exactly when the transition table allows it (pending to confirmed or cancelled,
  confirmed to preparing or cancelled, preparing to ready or cancelled, ready to
  out-for-delivery or cancelled, out-for-delivery to delivered, nothing from delivered or
  cancelled); any other request is answered with the error "Cannot change status from
  ... to ..." and the store is left as it was; an accepted one stores the order with the
  new status, with the handler's history record appended to the previous history, and
  with \<open>actualDeliveryTime\<close> stamped when the new status is delivered.
\<close>

theorem admin_status_transitions:
  assumes "role u = AdminRole"
    and "case given of None \<Rightarrow> True | Some n \<Rightarrow> length (trim n) \<le> 200"
    and "find (\<lambda>x. orderId x = oid) (orders s) = Some ord"
    and "oid \<noteq> []"
  shows "(allowed (orderStatus ord) st \<longleftrightarrow>
           (\<exists>code msg ord' s'. admin_update_status e u oid st given s = (Success code msg ord', s')))
     \<and> (\<not> allowed (orderStatus ord) st \<longrightarrow>
           admin_update_status e u oid st given s =
             (Failure 400 (''Cannot change status from '' @ status_str (orderStatus ord)
                            @ '' to '' @ status_str st), s))
     \<and> (\<forall>code msg ord' s'.
           admin_update_status e u oid st given s = (Success code msg ord', s') \<longrightarrow>
             orderStatus ord' = st
           \<and> find (\<lambda>x. orderId x = oid) (orders s') = Some ord'
           \<and> (\<exists>rest. statusHistory ord' =
                  statusHistory ord @ admin_entry e u (orderStatus ord) st given # rest)
           \<and> actualDeliveryTime ord' =
               (if st = Delivered then Some (now e) else actualDeliveryTime ord))"
proof (cases "allowed (orderStatus ord) st")
  case False
  have valid: "\<not> (case given of None \<Rightarrow> False | Some n \<Rightarrow> length (trim n) > 200)"
    using assms(2) by (cases given) auto
  have "admin_update_status e u oid st given s =
             (Failure 400 (''Cannot change status from '' @ status_str (orderStatus ord)
                            @ '' to '' @ status_str st), s)"
    using False assms(1,3) valid
    by (simp add: admin_update_status_def allowed_validTransitions)
  with False show ?thesis by simp
next
  case True
  then have tr: "st \<in> set (validTransitions (orderStatus ord))"
    by (simp add: allowed_validTransitions)
  define new where "new = saved e (admin_changes e u st given ord)"
  have oid: "orderId ord = oid"
    using find_holds [OF assms(3)] .
  have stored: "find (\<lambda>x. orderId x = oid) (replace_order new (orders s)) = Some new"
    by (rule find_replace_order [OF assms(3)])
       (simp_all add: new_def admin_saved_props [OF tr] oid)
  from admin_accepts [OF assms tr, of e] obtain s' where
    run: "admin_update_status e u oid st given s =
            (Success 200 ''Order status updated successfully'' new, s')"
    and os: "orders s' = replace_order new (orders s)"
    by (simp add: new_def)
  have "orderStatus new = st
      \<and> find (\<lambda>x. orderId x = oid) (orders s') = Some new
      \<and> (\<exists>rest. statusHistory new =
             statusHistory ord @ admin_entry e u (orderStatus ord) st given # rest)
      \<and> actualDeliveryTime new =
          (if st = Delivered then Some (now e) else actualDeliveryTime ord)"
    using stored os by (simp add: new_def admin_saved_props [OF tr])
  with True run show ?thesis by simp
qed

lemmas admin_eval =
  admin_update_status_def admin_changes_def admin_entry_def or_default_def
  save_order_def order_pre_save_def hook_entry_def replace_order_def push_history_def
  set_orderStatus_def load_def store_with_def stored_order_def seed_store_def
  sample_env_def admin_def Let_def

text \<open>
  The chain pending, confirmed, preparing, ready, out-for-delivery, delivered succeeds end
  to end, each step leaving its records in the history.
\<close>

lemma admin_chain_end_to_end:
  "map orderStatus
     (orders (admin_chain [Confirmed, Preparing, Ready, OutForDelivery, Delivered]
        (store_with (stored_order Cod Pending PaymentPending [])))) = [Delivered]
   \<and> map (map sh_status \<circ> statusHistory)
     (orders (admin_chain [Confirmed, Preparing, Ready, OutForDelivery, Delivered]
        (store_with (stored_order Cod Pending PaymentPending [])))) =
       [[Confirmed, Confirmed, Preparing, Preparing, Ready, Ready,
         OutForDelivery, OutForDelivery, Delivered, Delivered]]
   \<and> map actualDeliveryTime
     (orders (admin_chain [Confirmed, Preparing, Ready, OutForDelivery, Delivered]
        (store_with (stored_order Cod Pending PaymentPending [])))) = [Some 1000]"
  by (simp add: admin_chain_def admin_eval)

theorem admin_status_transitions_witness:
  "admin_update_status sample_env admin ''PZ000000007'' Preparing None
       (store_with (stored_order Cod Pending PaymentPending [])) =
     (Failure 400 ''Cannot change status from pending to preparing'',
      store_with (stored_order Cod Pending PaymentPending []))
   \<and> (\<exists>code msg ord' s'.
         admin_update_status sample_env admin ''PZ000000007'' Confirmed None
           (store_with (stored_order Cod Pending PaymentPending [])) =
         (Success code msg ord', s'))"
proof -
  let ?s = "store_with (stored_order Cod Pending PaymentPending [])"
  let ?ord = "stored_order Cod Pending PaymentPending []"
  have h1: "role admin = AdminRole" by (simp add: admin_def)
  have h2: "case None of None \<Rightarrow> True | Some n \<Rightarrow> length (trim n) \<le> 200" by simp
  have h3: "find (\<lambda>x. orderId x = ''PZ000000007'') (orders ?s) = Some ?ord"
    by (simp add: store_with_def stored_order_def)
  have h4: "''PZ000000007'' \<noteq> []" by simp
  have st: "orderStatus ?ord = Pending" by (simp add: stored_order_def)
  from admin_status_transitions [OF h1 h2 h3 h4, of Preparing sample_env]
       admin_status_transitions [OF h1 h2 h3 h4, of Confirmed sample_env]
  show ?thesis by (simp add: st)
qed

section \<open>Order status state machine: cancellation by the user\<close>

lemma cancel_changes_doc:
  assumes "orderStatus ord \<noteq> Cancelled"
  shows "cancel_changes e reason ord =
     \<lparr>doc = ord\<lparr>orderStatus := Cancelled,
                 statusHistory := statusHistory ord @
                   [\<lparr>sh_status = Cancelled, sh_timestamp = now e, updatedBy = None,
                     sh_notes = or_default reason ''Cancelled by user''\<rparr>]\<rparr>,
      isNew = False, orderStatus_modified = True\<rparr>"
  using assms
  by (simp add: cancel_changes_def push_history_def set_orderStatus_def load_def)

lemma cancelled_props:
  assumes "orderStatus ord \<noteq> Cancelled"
  shows "orderStatus (cancelled e reason ord) = Cancelled"
    and "orderId (cancelled e reason ord) = orderId ord"
    and "user (cancelled e reason ord) = user ord"
    and "paymentStatus (cancelled e reason ord) = paymentStatus ord"
    and "paymentMethod (cancelled e reason ord) = paymentMethod ord"
    and "statusHistory (cancelled e reason ord) = statusHistory ord @
           [\<lparr>sh_status = Cancelled, sh_timestamp = now e, updatedBy = None,
             sh_notes = or_default reason ''Cancelled by user''\<rparr>,
            hook_entry e Cancelled]"
  by (simp_all add: cancelled_def saved_def cancel_changes_doc [OF assms])

lemma cancel_succeeds:
  assumes "find (\<lambda>x. orderId x = oid \<and> user x = user_id u) (orders s) = Some ord"
    and "oid \<noteq> []"
    and "orderStatus ord \<notin> {Delivered, Cancelled, OutForDelivery}"
  shows "\<exists>s'. cancel_order e u oid reason s =
      (Success 200 ''Order cancelled successfully''
         (if paymentStatus ord = PaymentCompleted \<and> paymentMethod ord = Razorpay
             \<and> refund_succeeds e
          then refunded e (cancelled e reason ord) else cancelled e reason ord), s')
    \<and> orders s' =
      (if paymentStatus ord = PaymentCompleted \<and> paymentMethod ord = Razorpay
          \<and> refund_succeeds e
       then replace_order (refunded e (cancelled e reason ord))
              (replace_order (cancelled e reason ord) (orders s))
       else replace_order (cancelled e reason ord) (orders s))"
proof -
  have nc: "orderStatus ord \<noteq> Cancelled" using assms(3) by simp
  have ids: "orderId ord = oid" "user ord = user_id u"
    using find_holds [OF assms(1)] by simp_all
  note ch = cancel_changes_doc [OF nc, of e reason]
  have sv1: "save_order e (cancel_changes e reason ord) os =
     Inr (\<lparr>doc = cancelled e reason ord, isNew = False, orderStatus_modified = False\<rparr>,
          replace_order (cancelled e reason ord) os)" for os
    unfolding cancelled_def
    by (rule save_order_loaded) (simp_all add: ch ids assms(2))
  have sv2: "save_order e
       \<lparr>doc = (cancelled e reason ord)\<lparr>paymentStatus := PaymentRefunded\<rparr>, isNew = False,
        orderStatus_modified = False\<rparr> os =
     Inr (\<lparr>doc = refunded e (cancelled e reason ord), isNew = False,
           orderStatus_modified = False\<rparr>,
          replace_order (refunded e (cancelled e reason ord)) os)" for os
  proof -
    have "saved e \<lparr>doc = (cancelled e reason ord)\<lparr>paymentStatus := PaymentRefunded\<rparr>,
             isNew = False, orderStatus_modified = False\<rparr> = refunded e (cancelled e reason ord)"
      by (simp add: saved_def refunded_def)
    moreover have "orderId ((cancelled e reason ord)\<lparr>paymentStatus := PaymentRefunded\<rparr>) \<noteq> []"
      by (simp add: cancelled_props [OF nc] ids assms(2))
    ultimately show ?thesis
      using save_order_loaded [of "\<lparr>doc = (cancelled e reason ord)\<lparr>paymentStatus := PaymentRefunded\<rparr>,
             isNew = False, orderStatus_modified = False\<rparr>" e os]
      by simp
  qed
  show ?thesis
    using assms(1,3)
    by (simp add: cancel_order_def sv1 sv2 cancelled_props [OF nc] Let_def)
qed

text \<open>
  C9: for a cancellation request of the owner of a stored order: when the status is
  delivered or cancelled the request is rejected ("Order cannot be cancelled"); when it is
  out-for-delivery the request is rejected with its own contact-support message, which is
  neither the former message nor the admin handler's invalid-transition message, and in
  both cases the store (so the order's status) is unchanged; in every other status the
  cancellation succeeds and the stored order is cancelled.
\<close>

theorem user_cancellation:
  assumes "find (\<lambda>x. orderId x = oid \<and> user x = user_id u) (orders s) = Some ord"
    and "oid \<noteq> []"
  shows "(orderStatus ord \<in> {Delivered, Cancelled} \<longrightarrow>
            cancel_order e u oid reason s = (Failure 400 ''Order cannot be cancelled'', s))
    \<and> (orderStatus ord = OutForDelivery \<longrightarrow>
            cancel_order e u oid reason s =
              (Failure 400
                 ''Order is out for delivery and cannot be cancelled. Please contact support.'',
               s)
          \<and> ''Order is out for delivery and cannot be cancelled. Please contact support.''
              \<noteq> ''Order cannot be cancelled''
          \<and> ''Order is out for delivery and cannot be cancelled. Please contact support.''
              \<noteq> ''Cannot change status from '' @ status_str OutForDelivery @ '' to ''
                    @ status_str Cancelled)
    \<and> (orderStatus ord \<notin> {Delivered, Cancelled, OutForDelivery} \<longrightarrow>
          (\<exists>ord' s'. cancel_order e u oid reason s =
                        (Success 200 ''Order cancelled successfully'' ord', s')
             \<and> orderStatus ord' = Cancelled
             \<and> find (\<lambda>x. orderId x = oid \<and> user x = user_id u) (orders s') = Some ord'))"
proof (intro conjI impI)
  assume "orderStatus ord \<in> {Delivered, Cancelled}"
  then show "cancel_order e u oid reason s = (Failure 400 ''Order cannot be cancelled'', s)"
    using assms(1) by (auto simp: cancel_order_def)
next
  assume "orderStatus ord = OutForDelivery"
  then show "cancel_order e u oid reason s =
      (Failure 400
         ''Order is out for delivery and cannot be cancelled. Please contact support.'', s)"
    using assms(1) by (simp add: cancel_order_def)
next
  assume ok: "orderStatus ord \<notin> {Delivered, Cancelled, OutForDelivery}"
  then have nc: "orderStatus ord \<noteq> Cancelled" by simp
  have ids: "orderId ord = oid" "user ord = user_id u"
    using find_holds [OF assms(1)] by simp_all
  let ?P = "\<lambda>x. orderId x = oid \<and> user x = user_id u"
  let ?c = "cancelled e reason ord"
  have f1: "find ?P (replace_order ?c (orders s)) = Some ?c"
    by (rule find_replace_order [OF assms(1)]) (simp_all add: cancelled_props [OF nc] ids)
  have f2: "find ?P (replace_order (refunded e ?c) (replace_order ?c (orders s)))
              = Some (refunded e ?c)"
    by (rule find_replace_order [OF f1])
       (simp_all add: refunded_def cancelled_props [OF nc] ids)
  from cancel_succeeds [OF assms ok, of e reason] f1 f2
  show "\<exists>ord' s'. cancel_order e u oid reason s =
                        (Success 200 ''Order cancelled successfully'' ord', s')
             \<and> orderStatus ord' = Cancelled
             \<and> find ?P (orders s') = Some ord'"
    by (auto simp: refunded_def cancelled_props [OF nc])
qed simp_all

theorem user_cancellation_witness:
  "cancel_order sample_env customer ''PZ000000007'' None
       (store_with (stored_order Razorpay OutForDelivery PaymentCompleted [])) =
     (Failure 400 ''Order is out for delivery and cannot be cancelled. Please contact support.'',
      store_with (stored_order Razorpay OutForDelivery PaymentCompleted []))
   \<and> (\<exists>ord' s'. cancel_order sample_env customer ''PZ000000007'' None
                     (store_with (stored_order Razorpay Preparing PaymentCompleted [])) =
                   (Success 200 ''Order cancelled successfully'' ord', s')
         \<and> orderStatus ord' = Cancelled)"
proof -
  have h1: "find (\<lambda>x. orderId x = ''PZ000000007'' \<and> user x = user_id customer)
              (orders (store_with (stored_order Razorpay st pst []))) =
            Some (stored_order Razorpay st pst [])" for st pst
    by (simp add: store_with_def stored_order_def customer_def)
  have h2: "''PZ000000007'' \<noteq> []" by simp
  have st: "orderStatus (stored_order Razorpay st pst []) = st" for st pst
    by (simp add: stored_order_def)
  from user_cancellation [OF h1 h2, of OutForDelivery PaymentCompleted sample_env None]
       user_cancellation [OF h1 h2, of Preparing PaymentCompleted sample_env None]
  show ?thesis by (simp add: st) blast
qed

section \<open>Payment verification: the rejected requests\<close>

lemmas verify_eval =
  verify_payment_def payment_changes_def verifyPaymentSignature_def confirmed_effects_def
  updateInventoryForOrder_def consume_order_def updateInventoryForItem_def
  updateInventoryItem_def matches_def consume_def updateStock_def updateStock_doc_def
  inventory_pre_save_def checkAndSendLowStockAlerts_def needs_alert_def ingredient_names_def
  substring_ci_def lower_def sample_digest_def valid_payment_def stocked_def
  save_order_def order_pre_save_def hook_entry_def replace_order_def push_history_def
  set_orderStatus_def load_def store_with_def stored_order_def seed_store_def
  sample_env_def customer_def home_def Let_def

lemma after_payment_orders: "orders after_payment = [paid_order]"
  by (simp add: after_payment_def paid_order_def verify_eval)

lemma after_payment_stock: "map currentStock (inventory after_payment) = [23, 15]"
  by (simp add: after_payment_def verify_eval)

text \<open>
  C3: a payment-verification request on an order whose payment is already completed is
  answered "Payment already completed" and the store (orders, inventory, outbox) is left
  as it was, so nothing is consumed a second time; a request whose signature differs from
  the HMAC-SHA256 of \<open>gatewayOrderId|gatewayPaymentId\<close> under the gateway secret is
  answered with an error and the store is left as it was, the error being "Payment
  verification failed" once the order is found and not yet paid.
\<close>

theorem verify_payment_rejections:
  "(vr_orderId rq \<noteq> [] \<and> vr_razorpayOrderId rq \<noteq> [] \<and> vr_razorpayPaymentId rq \<noteq> []
      \<and> vr_razorpaySignature rq \<noteq> []
      \<and> find (\<lambda>x. orderId x = vr_orderId rq \<and> user x = user_id u
                     \<and> paymentMethod x = Razorpay) (orders s) = Some ord
      \<and> paymentStatus ord = PaymentCompleted
    \<longrightarrow> verify_payment e u rq s = (Failure 400 ''Payment already completed'', s))
   \<and> (key_secret e = Some k
      \<and> vr_razorpaySignature rq \<noteq>
          hmac_sha256_hex e k (vr_razorpayOrderId rq @ ''|'' @ vr_razorpayPaymentId rq)
    \<longrightarrow> (\<exists>code msg. verify_payment e u rq s = (Failure code msg, s))
       \<and> (vr_orderId rq \<noteq> [] \<and> vr_razorpayOrderId rq \<noteq> [] \<and> vr_razorpayPaymentId rq \<noteq> []
            \<and> vr_razorpaySignature rq \<noteq> []
            \<and> find (\<lambda>x. orderId x = vr_orderId rq \<and> user x = user_id u
                           \<and> paymentMethod x = Razorpay) (orders s) = Some ord
            \<and> paymentStatus ord \<noteq> PaymentCompleted
          \<longrightarrow> verify_payment e u rq s = (Failure 400 ''Payment verification failed'', s)))"
  by (auto simp: verify_payment_def verifyPaymentSignature_def split: option.splits)

theorem verify_payment_rejections_witness:
  "verify_payment sample_env customer valid_payment after_payment =
     (Failure 400 ''Payment already completed'', after_payment)
   \<and> map currentStock (inventory after_payment) = [23, 15]
   \<and> verify_payment sample_env customer (valid_payment\<lparr>vr_razorpaySignature := ''forged''\<rparr>)
       (store_with (stored_order Razorpay Pending PaymentPending [''Mozzarella''])) =
     (Failure 400 ''Payment verification failed'',
      store_with (stored_order Razorpay Pending PaymentPending [''Mozzarella'']))"
proof -
  have found: "find (\<lambda>x. orderId x = vr_orderId valid_payment \<and> user x = user_id customer
                     \<and> paymentMethod x = Razorpay) (orders after_payment) = Some paid_order"
    by (simp add: after_payment_orders)
       (simp add: paid_order_def valid_payment_def customer_def stored_order_def)
  have paid: "paymentStatus paid_order = PaymentCompleted"
    by (simp add: paid_order_def stored_order_def)
  have first: "verify_payment sample_env customer valid_payment after_payment =
     (Failure 400 ''Payment already completed'', after_payment)"
    using verify_payment_rejections
      [of valid_payment customer after_payment paid_order sample_env "''key''"] found paid
    by (simp add: valid_payment_def)
  have found': "find (\<lambda>x. orderId x = vr_orderId valid_payment \<and> user x = user_id customer
                     \<and> paymentMethod x = Razorpay)
      (orders (store_with (stored_order Razorpay Pending PaymentPending [''Mozzarella''])))
      = Some (stored_order Razorpay Pending PaymentPending [''Mozzarella''])"
    by (simp add: valid_payment_def customer_def stored_order_def store_with_def)
  have second: "verify_payment sample_env customer
       (valid_payment\<lparr>vr_razorpaySignature := ''forged''\<rparr>)
       (store_with (stored_order Razorpay Pending PaymentPending [''Mozzarella''])) =
     (Failure 400 ''Payment verification failed'',
      store_with (stored_order Razorpay Pending PaymentPending [''Mozzarella'']))"
    using verify_payment_rejections
      [of "valid_payment\<lparr>vr_razorpaySignature := ''forged''\<rparr>" customer
          "store_with (stored_order Razorpay Pending PaymentPending [''Mozzarella''])"
          "stored_order Razorpay Pending PaymentPending [''Mozzarella'']" sample_env "''key''"]
      found'
    by (simp add: valid_payment_def sample_env_def sample_digest_def stored_order_def)
  from first second after_payment_stock show ?thesis by simp
qed

section \<open>How the status history grows\<close>

lemma payment_changes_props:
  "\<not> isNew (payment_changes rq ord)"
  "orderId (doc (payment_changes rq ord)) = orderId ord"
  "orderStatus_modified (payment_changes rq ord) \<longleftrightarrow> orderStatus ord \<noteq> Confirmed"
  "orderStatus (doc (payment_changes rq ord)) = Confirmed"
  "paymentStatus (doc (payment_changes rq ord)) = PaymentCompleted"
  "statusHistory (doc (payment_changes rq ord)) = statusHistory ord"
  "items (doc (payment_changes rq ord)) = items ord"
  by (simp_all add: payment_changes_def set_orderStatus_def load_def)

lemma cod_changes_props:
  "\<not> isNew (set_orderStatus Confirmed (load ord))"
  "orderId (doc (set_orderStatus Confirmed (load ord))) = orderId ord"
  "orderStatus_modified (set_orderStatus Confirmed (load ord)) \<longleftrightarrow> orderStatus ord \<noteq> Confirmed"
  "orderStatus (doc (set_orderStatus Confirmed (load ord))) = Confirmed"
  "paymentStatus (doc (set_orderStatus Confirmed (load ord))) = paymentStatus ord"
  "statusHistory (doc (set_orderStatus Confirmed (load ord))) = statusHistory ord"
  "items (doc (set_orderStatus Confirmed (load ord))) = items ord"
  by (simp_all add: set_orderStatus_def load_def)

lemma saved_props:
  "orderId (saved e d) = orderId (doc d)"
  "orderStatus (saved e d) = orderStatus (doc d)"
  "paymentStatus (saved e d) = paymentStatus (doc d)"
  "items (saved e d) = items (doc d)"
  "statusHistory (saved e d) = statusHistory (doc d) @
     (if orderStatus_modified d then [hook_entry e (orderStatus (doc d))] else [])"
  by (simp_all add: saved_def)

lemma confirmed_effects_inventory:
  "inventory (confirmed_effects e u ord msg s) =
     fst (checkAndSendLowStockAlerts e (consume_order e ord (inventory s), outbox s))"
  "orders (confirmed_effects e u ord msg s) = orders s"
  by (simp_all add: confirmed_effects_def updateInventoryForOrder_def split_beta Let_def)

lemma verify_payment_run:
  assumes "find (\<lambda>x. orderId x = vr_orderId rq \<and> user x = user_id u
                     \<and> paymentMethod x = Razorpay) (orders s) = Some ord"
    and "vr_orderId rq \<noteq> []"
  shows "verify_payment e u rq s =
     (if vr_razorpayOrderId rq = [] \<or> vr_razorpayPaymentId rq = []
         \<or> vr_razorpaySignature rq = []
      then (Failure 400 ''Validation failed'', s)
      else if paymentStatus ord = PaymentCompleted
      then (Failure 400 ''Payment already completed'', s)
      else if \<not> verifyPaymentSignature e (vr_razorpayOrderId rq) (vr_razorpayPaymentId rq)
                  (vr_razorpaySignature rq)
      then (Failure 400 ''Payment verification failed'', s)
      else (Success 200 ''Payment verified and order confirmed''
              (saved e (payment_changes rq ord)),
            confirmed_effects e u (saved e (payment_changes rq ord))
              ''Order confirmed and payment successful!''
              (s\<lparr>orders := replace_order (saved e (payment_changes rq ord)) (orders s)\<rparr>)))"
proof -
  have oid: "orderId ord = vr_orderId rq"
    using find_holds [OF assms(1)] by simp
  have sv: "save_order e (payment_changes rq ord) (orders s) =
     Inr (\<lparr>doc = saved e (payment_changes rq ord), isNew = False,
           orderStatus_modified = False\<rparr>,
          replace_order (saved e (payment_changes rq ord)) (orders s))"
    by (rule save_order_loaded) (simp_all add: payment_changes_props oid assms(2))
  show ?thesis
    using assms by (simp add: verify_payment_def sv)
qed

lemma confirm_cod_run:
  assumes "find (\<lambda>x. orderId x = oid \<and> user x = user_id u \<and> paymentMethod x = Cod)
             (orders s) = Some ord"
    and "oid \<noteq> []"
  shows "confirm_cod e u oid s =
     (if orderStatus ord \<noteq> Pending then (Failure 400 ''Order already processed'', s)
      else (Success 200 ''COD order confirmed successfully''
              (saved e (set_orderStatus Confirmed (load ord))),
            confirmed_effects e u (saved e (set_orderStatus Confirmed (load ord)))
              ''Order confirmed! We will start preparing your pizza.''
              (s\<lparr>orders := replace_order (saved e (set_orderStatus Confirmed (load ord)))
                               (orders s)\<rparr>)))"
proof -
  have oid: "orderId ord = oid"
    using find_holds [OF assms(1)] by simp
  have sv: "save_order e (set_orderStatus Confirmed (load ord)) (orders s) =
     Inr (\<lparr>doc = saved e (set_orderStatus Confirmed (load ord)), isNew = False,
           orderStatus_modified = False\<rparr>,
          replace_order (saved e (set_orderStatus Confirmed (load ord))) (orders s))"
    by (rule save_order_loaded) (simp_all add: cod_changes_props oid assms(2))
  show ?thesis
    using assms by (simp add: confirm_cod_def sv)
qed

lemma admin_success_pre:
  assumes "admin_update_status e u oid st given s = (Success code msg ord', s')"
    and "find (\<lambda>x. orderId x = oid) (orders s) = Some ord"
  shows "role u = AdminRole"
    and "case given of None \<Rightarrow> True | Some n \<Rightarrow> length (trim n) \<le> 200"
    and "st \<in> set (validTransitions (orderStatus ord))"
  using assms
  by (auto simp: admin_update_status_def split: if_splits option.splits)

lemma cancel_success_pre:
  assumes "cancel_order e u oid reason s = (Success code msg ord', s')"
    and "find (\<lambda>x. orderId x = oid \<and> user x = user_id u) (orders s) = Some ord"
  shows "orderStatus ord \<notin> {Delivered, Cancelled, OutForDelivery}"
  using assms
  by (auto simp: cancel_order_def split: if_splits)

text \<open>
  C10 (as amended): a successful admin status update and a successful cancellation by the
  user each grow the order's \<open>statusHistory\<close> by exactly two entries, the one the handler
  pushes and the one the pre-save hook pushes; a successful cash-on-delivery confirmation
  grows it by exactly one entry, the hook's; a successful payment verification grows it by
  exactly one entry when the order's status was not yet confirmed, and by none when it
  already was, since the hook fires only when \<open>orderStatus\<close> is modified.
\<close>

theorem statusHistory_growth:
  "(admin_update_status e u oid st given s = (Success code msg ord', s')
      \<and> find (\<lambda>x. orderId x = oid) (orders s) = Some ord \<and> oid \<noteq> []
    \<longrightarrow> statusHistory ord' =
          statusHistory ord @ [admin_entry e u (orderStatus ord) st given, hook_entry e st])
   \<and> (cancel_order e u oid reason s = (Success code msg ord', s')
      \<and> find (\<lambda>x. orderId x = oid \<and> user x = user_id u) (orders s) = Some ord \<and> oid \<noteq> []
    \<longrightarrow> statusHistory ord' =
          statusHistory ord @
            [\<lparr>sh_status = Cancelled, sh_timestamp = now e, updatedBy = None,
              sh_notes = or_default reason ''Cancelled by user''\<rparr>,
             hook_entry e Cancelled])
   \<and> (confirm_cod e u oid s = (Success code msg ord', s')
      \<and> find (\<lambda>x. orderId x = oid \<and> user x = user_id u \<and> paymentMethod x = Cod)
            (orders s) = Some ord \<and> oid \<noteq> []
    \<longrightarrow> statusHistory ord' = statusHistory ord @ [hook_entry e Confirmed])
   \<and> (verify_payment e u rq s = (Success code msg ord', s')
      \<and> find (\<lambda>x. orderId x = vr_orderId rq \<and> user x = user_id u
                     \<and> paymentMethod x = Razorpay) (orders s) = Some ord
    \<longrightarrow> statusHistory ord' =
          statusHistory ord @
            (if orderStatus ord = Confirmed then [] else [hook_entry e Confirmed]))"
proof (intro conjI impI; elim conjE)
  assume run: "admin_update_status e u oid st given s = (Success code msg ord', s')"
    and found: "find (\<lambda>x. orderId x = oid) (orders s) = Some ord" and oid: "oid \<noteq> []"
  note pre = admin_success_pre [OF run found]
  from admin_accepts [OF pre(1,2) found oid pre(3), of e] run
  have "ord' = saved e (admin_changes e u st given ord)" by simp
  then show "statusHistory ord' =
          statusHistory ord @ [admin_entry e u (orderStatus ord) st given, hook_entry e st]"
    by (simp add: admin_saved_props [OF pre(3)])
next
  assume run: "cancel_order e u oid reason s = (Success code msg ord', s')"
    and found: "find (\<lambda>x. orderId x = oid \<and> user x = user_id u) (orders s) = Some ord"
    and oid: "oid \<noteq> []"
  note pre = cancel_success_pre [OF run found]
  then have nc: "orderStatus ord \<noteq> Cancelled" by simp
  from cancel_succeeds [OF found oid pre, of e reason] run
  have "ord' = refunded e (cancelled e reason ord) \<or> ord' = cancelled e reason ord"
    by (auto split: if_splits)
  then show "statusHistory ord' =
          statusHistory ord @
            [\<lparr>sh_status = Cancelled, sh_timestamp = now e, updatedBy = None,
              sh_notes = or_default reason ''Cancelled by user''\<rparr>,
             hook_entry e Cancelled]"
    by (auto simp: refunded_def cancelled_props [OF nc])
next
  assume run: "confirm_cod e u oid s = (Success code msg ord', s')"
    and found: "find (\<lambda>x. orderId x = oid \<and> user x = user_id u \<and> paymentMethod x = Cod)
            (orders s) = Some ord" and oid: "oid \<noteq> []"
  from run confirm_cod_run [OF found oid, of e]
  have "orderStatus ord = Pending \<and> ord' = saved e (set_orderStatus Confirmed (load ord))"
    by (auto split: if_splits)
  then show "statusHistory ord' = statusHistory ord @ [hook_entry e Confirmed]"
    by (simp add: saved_props cod_changes_props)
next
  assume run: "verify_payment e u rq s = (Success code msg ord', s')"
    and found: "find (\<lambda>x. orderId x = vr_orderId rq \<and> user x = user_id u
                     \<and> paymentMethod x = Razorpay) (orders s) = Some ord"
  have oid: "vr_orderId rq \<noteq> []"
    using run by (auto simp: verify_payment_def)
  from run verify_payment_run [OF found oid, of e]
  have "ord' = saved e (payment_changes rq ord)"
    by (auto split: if_splits)
  then show "statusHistory ord' =
          statusHistory ord @
            (if orderStatus ord = Confirmed then [] else [hook_entry e Confirmed])"
    by (simp add: saved_props payment_changes_props)
qed

lemma admin_confirmed_orders:
  "orders admin_confirmed =
     [(stored_order Razorpay Confirmed PaymentPending [])
        \<lparr>statusHistory := [admin_entry sample_env admin Pending Confirmed None,
                           hook_entry sample_env Confirmed],
         updatedAt := 1000\<rparr>]"
  by (simp add: admin_confirmed_def admin_eval)

text \<open>
  An order an admin confirmed before the payment: its history holds the two entries of
  that update; the verification succeeds and the history does not grow.
\<close>

theorem statusHistory_growth_counterexample:
  "map orderStatus (orders admin_confirmed) = [Confirmed]
   \<and> map (length \<circ> statusHistory) (orders admin_confirmed) = [2]
   \<and> succeeded (fst (verify_payment sample_env customer valid_payment admin_confirmed))
   \<and> map paymentStatus
        (orders (snd (verify_payment sample_env customer valid_payment admin_confirmed))) =
       [PaymentCompleted]
   \<and> map (length \<circ> statusHistory)
        (orders (snd (verify_payment sample_env customer valid_payment admin_confirmed))) = [2]"
proof -
  let ?x = "(stored_order Razorpay Confirmed PaymentPending [])
        \<lparr>statusHistory := [admin_entry sample_env admin Pending Confirmed None,
                           hook_entry sample_env Confirmed],
         updatedAt := 1000\<rparr>"
  let ?new = "saved sample_env (payment_changes valid_payment ?x)"
  have x: "orderId ?x = ''PZ000000007''" "user ?x = ''u1''" "paymentMethod ?x = Razorpay"
    "paymentStatus ?x = PaymentPending" "orderStatus ?x = Confirmed"
    "length (statusHistory ?x) = 2"
    by (simp_all add: stored_order_def)
  have found: "find (\<lambda>x. orderId x = vr_orderId valid_payment \<and> user x = user_id customer
                     \<and> paymentMethod x = Razorpay) (orders admin_confirmed) = Some ?x"
    by (simp add: admin_confirmed_orders x valid_payment_def customer_def)
  have sig: "verifyPaymentSignature sample_env (vr_razorpayOrderId valid_payment)
               (vr_razorpayPaymentId valid_payment) (vr_razorpaySignature valid_payment)"
    by (simp add: verifyPaymentSignature_def valid_payment_def sample_env_def sample_digest_def)
  have run: "verify_payment sample_env customer valid_payment admin_confirmed =
      (Success 200 ''Payment verified and order confirmed'' ?new,
       confirmed_effects sample_env customer ?new ''Order confirmed and payment successful!''
         (admin_confirmed\<lparr>orders := replace_order ?new (orders admin_confirmed)\<rparr>))"
    using verify_payment_run [OF found, where e = sample_env] sig x(4)
    by (simp add: valid_payment_def)
  have new: "paymentStatus ?new = PaymentCompleted" "length (statusHistory ?new) = 2"
    "orderId ?new = ''PZ000000007''"
    by (simp_all add: saved_props payment_changes_props x)
  show ?thesis
    unfolding run
    by (simp add: confirmed_effects_inventory admin_confirmed_orders replace_order_def x new)
qed

theorem statusHistory_growth_witness:
  "(\<exists>ord' s'. admin_update_status sample_env admin ''PZ000000007'' Confirmed None
                 (store_with (stored_order Razorpay Pending PaymentPending [])) =
               (Success 200 ''Order status updated successfully'' ord', s')
       \<and> length (statusHistory ord') = 2)
   \<and> (\<exists>ord' s'. verify_payment sample_env customer valid_payment
                 (store_with (stored_order Razorpay Pending PaymentPending [])) =
               (Success 200 ''Payment verified and order confirmed'' ord', s')
       \<and> length (statusHistory ord') = 1)
   \<and> (\<exists>ord' s'. verify_payment sample_env customer valid_payment
                 (store_with (stored_order Razorpay Confirmed PaymentPending [])) =
               (Success 200 ''Payment verified and order confirmed'' ord', s')
       \<and> length (statusHistory ord') = 0)"
proof -
  let ?s = "\<lambda>st. store_with (stored_order Razorpay st PaymentPending [])"
  let ?o = "\<lambda>st. stored_order Razorpay st PaymentPending []"
  have f1: "find (\<lambda>x. orderId x = ''PZ000000007'') (orders (?s st)) = Some (?o st)" for st
    by (simp add: store_with_def stored_order_def)
  have f2: "find (\<lambda>x. orderId x = vr_orderId valid_payment \<and> user x = user_id customer
                     \<and> paymentMethod x = Razorpay) (orders (?s st)) = Some (?o st)" for st
    by (simp add: store_with_def stored_order_def valid_payment_def customer_def)
  have h: "statusHistory (?o st) = []" "orderStatus (?o st) = st" for st
    by (simp_all add: stored_order_def)
  have r1: "admin_update_status sample_env admin ''PZ000000007'' Confirmed None (?s Pending) =
      (Success 200 ''Order status updated successfully''
         (saved sample_env (admin_changes sample_env admin Confirmed None (?o Pending))),
       snd (admin_update_status sample_env admin ''PZ000000007'' Confirmed None (?s Pending)))"
  proof -
    have p1: "role admin = AdminRole" by (simp add: admin_def)
    have p2: "case None of None \<Rightarrow> True | Some n \<Rightarrow> length (trim n) \<le> 200" by simp
    have p3: "''PZ000000007'' \<noteq> []" by simp
    have p4: "Confirmed \<in> set (validTransitions (orderStatus (?o Pending)))"
      by (simp add: h)
    from admin_accepts [OF p1 p2 f1 p3 p4, of sample_env] show ?thesis by simp
  qed
  have r2: "verify_payment sample_env customer valid_payment (?s st) =
      (Success 200 ''Payment verified and order confirmed''
         (saved sample_env (payment_changes valid_payment (?o st))),
       snd (verify_payment sample_env customer valid_payment (?s st)))" for st
    using verify_payment_run [OF f2 [of st], where e = sample_env]
    by (simp add: valid_payment_def stored_order_def verifyPaymentSignature_def
        sample_env_def sample_digest_def)
  from statusHistory_growth
       [of sample_env admin "''PZ000000007''" Confirmed None "?s Pending" 200
           "''Order status updated successfully''"
           "saved sample_env (admin_changes sample_env admin Confirmed None (?o Pending))"
           "snd (admin_update_status sample_env admin ''PZ000000007'' Confirmed None (?s Pending))"
           "?o Pending"]
       r1 f1
  have a: "length (statusHistory
             (saved sample_env (admin_changes sample_env admin Confirmed None (?o Pending)))) = 2"
    by (simp add: h)
  have b: "length (statusHistory (saved sample_env (payment_changes valid_payment (?o st)))) =
             (if st = Confirmed then 0 else 1)" for st
  proof -
    have "verify_payment sample_env customer valid_payment (?s st) =
            (Success 200 ''Payment verified and order confirmed''
               (saved sample_env (payment_changes valid_payment (?o st))),
             snd (verify_payment sample_env customer valid_payment (?s st)))
          \<and> find (\<lambda>x. orderId x = vr_orderId valid_payment \<and> user x = user_id customer
                     \<and> paymentMethod x = Razorpay) (orders (?s st)) = Some (?o st)
          \<longrightarrow> statusHistory (saved sample_env (payment_changes valid_payment (?o st))) =
                statusHistory (?o st) @
                  (if orderStatus (?o st) = Confirmed then []
                   else [hook_entry sample_env Confirmed])"
      using statusHistory_growth
        [of sample_env customer "''x''" Confirmed None "?s st" 200
           "''Payment verified and order confirmed''"
           "saved sample_env (payment_changes valid_payment (?o st))"
           "snd (verify_payment sample_env customer valid_payment (?s st))"
           "?o st" None valid_payment]
      by blast
    with r2 [of st] f2 [of st] show ?thesis by (simp add: h)
  qed
  from r1 a r2 [of Pending] r2 [of Confirmed] b [of Pending] b [of Confirmed]
  show ?thesis by (intro conjI exI) simp_all
qed

section \<open>Inventory consumption on confirmation\<close>

lemma fold_concat_map:
  "fold f (concat (map g xs)) s = fold (\<lambda>x. fold f (g x)) xs s"
  by (induction xs arbitrary: s) simp_all

text \<open>An item that stores a base and a sauce: the names visited are those stored.\<close>

lemma ingredient_names_stored:
  assumes "base c \<noteq> None" and "sauce c \<noteq> None"
  shows "ingredient_names c = map (\<lambda>x. Some (cust_name x)) (stored c)"
  using assms by (auto simp: ingredient_names_def stored_def opt_list_def)

lemma updateInventoryForItem_stored:
  assumes "base (customizations item) \<noteq> None" and "sauce (customizations item) \<noteq> None"
  shows "updateInventoryForItem e oid item ivs =
     fold (\<lambda>(n, q). updateInventoryItem e (Some n) q oid)
       (map (\<lambda>c. (cust_name c, of_int (quantity item))) (stored (customizations item))) ivs"
  by (simp add: updateInventoryForItem_def ingredient_names_stored [OF assms] fold_map comp_def)

lemma consume_items_stored:
  assumes "list_all (\<lambda>item. base (customizations item) \<noteq> None
                             \<and> sauce (customizations item) \<noteq> None) its"
  shows "fold (updateInventoryForItem e oid) its ivs =
     fold (\<lambda>item. fold (\<lambda>(n, q). updateInventoryItem e (Some n) q oid)
             (map (\<lambda>c. (cust_name c, of_int (quantity item))) (stored (customizations item))))
       its ivs"
  using assms
  by (induction its arbitrary: ivs) (simp_all add: updateInventoryForItem_stored)

lemma consume_order_consume_all:
  assumes "stores_base_and_sauce ord"
  shows "consume_order e ord ivs = consume_all e (orderId ord) (order_consumptions ord) ivs"
  using consume_items_stored [of "items ord" e "orderId ord" ivs] assms
  by (simp add: consume_order_def consume_all_def order_consumptions_def fold_concat_map
      stores_base_and_sauce_def)

lemma update_first_none: "\<not> list_ex P xs \<Longrightarrow> update_first P f xs = xs"
  by (induction xs) auto

lemma update_first_split:
  "\<not> list_ex P pre \<Longrightarrow> P x \<Longrightarrow> update_first P f (pre @ x # post) = pre @ f x # post"
  by (induction pre) auto

lemma consume_consumed:
  assumes "0 \<le> q" and "minStockLevel it < maxStockLevel it"
  shows "consume e q oid it = consumed e q oid it"
  using assms
  by (simp add: consume_def updateStock_def updateStock_doc_def inventory_pre_save_def
      consumed_def Let_def max_def)

lemma alerts_keep_stock:
  "map currentStock (fst (checkAndSendLowStockAlerts e io)) = map currentStock (fst io)"
  "map stockHistory (fst (checkAndSendLowStockAlerts e io)) = map stockHistory (fst io)"
  by (simp_all add: checkAndSendLowStockAlerts_def Let_def comp_def)

text \<open>
  C6 (as amended): a successful payment verification stores the order with payment
  completed and status confirmed; a successful cash-on-delivery confirmation stores it
  with status confirmed and the payment status it had. In both cases, for an order whose
  items each store a base and a sauce, the stocks and the stock histories of the
  inventory afterwards are those obtained by applying, in order, one consumption request
  for every customization stored on every order item, with the item's quantity. A request
  consumes from the first active inventory item its name matches, the stock clamped at
  zero; a request that matches no active item consumes nothing.
\<close>

theorem confirmation_consumes_inventory:
  "(verify_payment e u rq s = (Success code msg ord', s')
      \<and> find (\<lambda>x. orderId x = vr_orderId rq \<and> user x = user_id u
                     \<and> paymentMethod x = Razorpay) (orders s) = Some ord
    \<longrightarrow> paymentStatus ord' = PaymentCompleted \<and> orderStatus ord' = Confirmed
      \<and> (stores_base_and_sauce ord \<longrightarrow>
          map currentStock (inventory s') =
            map currentStock
              (consume_all e (orderId ord) (order_consumptions ord) (inventory s))
        \<and> map stockHistory (inventory s') =
            map stockHistory
              (consume_all e (orderId ord) (order_consumptions ord) (inventory s))))
   \<and> (confirm_cod e u oid s = (Success code msg ord', s')
      \<and> find (\<lambda>x. orderId x = oid \<and> user x = user_id u \<and> paymentMethod x = Cod)
            (orders s) = Some ord \<and> oid \<noteq> []
    \<longrightarrow> orderStatus ord' = Confirmed \<and> paymentStatus ord' = paymentStatus ord
      \<and> (stores_base_and_sauce ord \<longrightarrow>
          map currentStock (inventory s') =
            map currentStock
              (consume_all e (orderId ord) (order_consumptions ord) (inventory s))
        \<and> map stockHistory (inventory s') =
            map stockHistory
              (consume_all e (orderId ord) (order_consumptions ord) (inventory s))))
   \<and> (\<not> list_ex (matches e (Some n)) ivs \<longrightarrow>
        updateInventoryItem e (Some n) q oid' ivs = ivs)
   \<and> (\<not> list_ex (matches e (Some n)) pre \<and> matches e (Some n) it \<and> 0 \<le> q
        \<and> minStockLevel it < maxStockLevel it
      \<longrightarrow> updateInventoryItem e (Some n) q oid' (pre @ it # post)
            = pre @ consumed e q oid' it # post)"
proof (intro conjI impI; (elim conjE)?)
  assume run: "verify_payment e u rq s = (Success code msg ord', s')"
    and found: "find (\<lambda>x. orderId x = vr_orderId rq \<and> user x = user_id u
                     \<and> paymentMethod x = Razorpay) (orders s) = Some ord"
  have oid: "vr_orderId rq \<noteq> []"
    using run by (auto simp: verify_payment_def)
  let ?new = "saved e (payment_changes rq ord)"
  from run verify_payment_run [OF found oid, of e]
  have res: "ord' = ?new"
    "s' = confirmed_effects e u ?new ''Order confirmed and payment successful!''
            (s\<lparr>orders := replace_order ?new (orders s)\<rparr>)"
    by (auto split: if_splits)
  show "paymentStatus ord' = PaymentCompleted" "orderStatus ord' = Confirmed"
    by (simp_all add: res saved_props payment_changes_props)
  assume both: "stores_base_and_sauce ord"
  then have "stores_base_and_sauce ?new"
    by (simp add: stores_base_and_sauce_def saved_props payment_changes_props)
  from consume_order_consume_all [OF this]
  have same: "consume_order e ?new ivs = consume_all e (orderId ord) (order_consumptions ord) ivs"
    for ivs
    by (simp add: order_consumptions_def saved_props payment_changes_props)
  show "map currentStock (inventory s') =
          map currentStock (consume_all e (orderId ord) (order_consumptions ord) (inventory s))"
    "map stockHistory (inventory s') =
          map stockHistory (consume_all e (orderId ord) (order_consumptions ord) (inventory s))"
    by (simp_all add: res(2) confirmed_effects_inventory alerts_keep_stock same)
next
  assume run: "confirm_cod e u oid s = (Success code msg ord', s')"
    and found: "find (\<lambda>x. orderId x = oid \<and> user x = user_id u \<and> paymentMethod x = Cod)
            (orders s) = Some ord" and oid: "oid \<noteq> []"
  let ?new = "saved e (set_orderStatus Confirmed (load ord))"
  from run confirm_cod_run [OF found oid, of e]
  have res: "ord' = ?new"
    "s' = confirmed_effects e u ?new ''Order confirmed! We will start preparing your pizza.''
            (s\<lparr>orders := replace_order ?new (orders s)\<rparr>)"
    by (auto split: if_splits)
  show "orderStatus ord' = Confirmed" "paymentStatus ord' = paymentStatus ord"
    by (simp_all add: res saved_props cod_changes_props)
  assume both: "stores_base_and_sauce ord"
  then have "stores_base_and_sauce ?new"
    by (simp add: stores_base_and_sauce_def saved_props cod_changes_props)
  from consume_order_consume_all [OF this]
  have same: "consume_order e ?new ivs = consume_all e (orderId ord) (order_consumptions ord) ivs"
    for ivs
    by (simp add: order_consumptions_def saved_props cod_changes_props)
  show "map currentStock (inventory s') =
          map currentStock (consume_all e (orderId ord) (order_consumptions ord) (inventory s))"
    "map stockHistory (inventory s') =
          map stockHistory (consume_all e (orderId ord) (order_consumptions ord) (inventory s))"
    by (simp_all add: res(2) confirmed_effects_inventory alerts_keep_stock same)
next
  assume "\<not> list_ex (matches e (Some n)) ivs"
  then show "updateInventoryItem e (Some n) q oid' ivs = ivs"
    by (simp add: updateInventoryItem_def update_first_none)
next
  assume "\<not> list_ex (matches e (Some n)) pre" "matches e (Some n) it" "0 \<le> q"
    "minStockLevel it < maxStockLevel it"
  then show "updateInventoryItem e (Some n) q oid' (pre @ it # post)
      = pre @ consumed e q oid' it # post"
    by (simp add: updateInventoryItem_def update_first_split consume_consumed)
qed

lemmas cod_eval =
  confirm_cod_def confirmed_effects_def
  updateInventoryForOrder_def consume_order_def updateInventoryForItem_def
  updateInventoryItem_def matches_def consume_def updateStock_def updateStock_doc_def
  inventory_pre_save_def checkAndSendLowStockAlerts_def needs_alert_def ingredient_names_def
  substring_ci_def lower_def stocked_def
  save_order_def order_pre_save_def hook_entry_def replace_order_def push_history_def
  set_orderStatus_def load_def store_with_def stored_order_def seed_store_def
  sample_env_def customer_def home_def Let_def

text \<open>
  An order whose item stores a base, a sauce, an inactive cheese and an unknown one: the
  payment is verified and the inventory is as before. A cash-on-delivery order,
  confirmed: its payment is still pending.
\<close>

theorem confirmation_consumes_inventory_counterexample:
  "map paymentStatus (orders (snd (verify_payment sample_env customer valid_payment
       (store_with (stored_order Razorpay Pending PaymentPending [''Cheddar'', ''Blue Cheese'']))))) =
     [PaymentCompleted]
   \<and> order_consumptions (stored_order Razorpay Pending PaymentPending [''Cheddar'', ''Blue Cheese''])
       = [(''Thin Crust'', 2), (''Tomato Sauce'', 2), (''Cheddar'', 2), (''Blue Cheese'', 2)]
   \<and> inventory (snd (verify_payment sample_env customer valid_payment
       (store_with (stored_order Razorpay Pending PaymentPending [''Cheddar'', ''Blue Cheese'']))))
       = inventory seed_store
   \<and> map orderStatus (orders (snd (confirm_cod sample_env customer ''PZ000000007''
       (store_with (stored_order Cod Pending PaymentPending [''Mozzarella''])))))
       = [Confirmed]
   \<and> map paymentStatus (orders (snd (confirm_cod sample_env customer ''PZ000000007''
       (store_with (stored_order Cod Pending PaymentPending [''Mozzarella''])))))
       = [PaymentPending]"
  by (simp add: verify_eval cod_eval order_consumptions_def stored_def opt_list_def)

theorem confirmation_consumes_inventory_witness:
  "(\<exists>ord' s'. verify_payment sample_env customer valid_payment
                 (store_with (stored_order Razorpay Pending PaymentPending [''Mozzarella''])) =
               (Success 200 ''Payment verified and order confirmed'' ord', s')
       \<and> paymentStatus ord' = PaymentCompleted \<and> orderStatus ord' = Confirmed
       \<and> map currentStock (inventory s') = [23, 15])
   \<and> updateInventoryItem sample_env (Some ''Mozzarella'') 2 ''PZ000000007''
         (inventory seed_store) =
       [consumed sample_env 2 ''PZ000000007'' (stocked ''Mozzarella'' 25 True),
        stocked ''Cheddar'' 15 False]
   \<and> updateInventoryItem sample_env (Some ''Cheddar'') 2 ''PZ000000007''
         (inventory seed_store) =
       inventory seed_store"
proof -
  let ?o = "stored_order Razorpay Pending PaymentPending [''Mozzarella'']"
  let ?s = "store_with ?o"
  let ?r = "verify_payment sample_env customer valid_payment ?s"
  have found: "find (\<lambda>x. orderId x = vr_orderId valid_payment \<and> user x = user_id customer
                     \<and> paymentMethod x = Razorpay) (orders ?s) = Some ?o"
    by (simp add: store_with_def stored_order_def valid_payment_def customer_def)
  have run: "?r = (Success 200 ''Payment verified and order confirmed''
                     (saved sample_env (payment_changes valid_payment ?o)), snd ?r)"
    using verify_payment_run [OF found, where e = sample_env]
    by (simp add: valid_payment_def stored_order_def verifyPaymentSignature_def
        sample_env_def sample_digest_def)
  have both: "stores_base_and_sauce ?o"
    by (simp add: stores_base_and_sauce_def stored_order_def)
  have stock: "map currentStock
       (consume_all sample_env (orderId ?o) (order_consumptions ?o) (inventory ?s)) = [23, 15]"
    by (simp add: consume_all_def order_consumptions_def stored_def opt_list_def verify_eval)
  have m1: "\<not> list_ex (matches sample_env (Some ''Mozzarella'')) []"
    and m2: "matches sample_env (Some ''Mozzarella'') (stocked ''Mozzarella'' 25 True)"
    and m3: "minStockLevel (stocked ''Mozzarella'' 25 True)
              < maxStockLevel (stocked ''Mozzarella'' 25 True)"
    and m4: "\<not> list_ex (matches sample_env (Some ''Cheddar'')) (inventory seed_store)"
    by (simp_all add: matches_def sample_env_def substring_ci_def lower_def stocked_def
        seed_store_def)
  note thm1 = confirmation_consumes_inventory
    [of sample_env customer valid_payment ?s 200 "''Payment verified and order confirmed''"
        "saved sample_env (payment_changes valid_payment ?o)" "snd ?r" ?o "''x''"
        "''Mozzarella''" "[]" 2 "''PZ000000007''" "[]" "stocked ''Mozzarella'' 25 True"
        "[stocked ''Cheddar'' 15 False]"]
  note thm2 = confirmation_consumes_inventory
    [of sample_env customer valid_payment ?s 200 "''Payment verified and order confirmed''"
        "saved sample_env (payment_changes valid_payment ?o)" "snd ?r" ?o "''x''"
        "''Cheddar''" "inventory seed_store" 2 "''PZ000000007''" "[]"
        "stocked ''Mozzarella'' 25 True" "[]"]
  from thm1 run found both stock m1 m2 m3
  have a: "paymentStatus (saved sample_env (payment_changes valid_payment ?o)) = PaymentCompleted"
    "orderStatus (saved sample_env (payment_changes valid_payment ?o)) = Confirmed"
    "map currentStock (inventory (snd ?r)) = [23, 15]"
    "updateInventoryItem sample_env (Some ''Mozzarella'') 2 ''PZ000000007''
       [stocked ''Mozzarella'' 25 True, stocked ''Cheddar'' 15 False] =
     [consumed sample_env 2 ''PZ000000007'' (stocked ''Mozzarella'' 25 True),
      stocked ''Cheddar'' 15 False]"
    by simp_all
  from thm2 m4
  have b: "updateInventoryItem sample_env (Some ''Cheddar'') 2 ''PZ000000007''
       (inventory seed_store) = inventory seed_store"
    by simp
  have ivs: "inventory seed_store = [stocked ''Mozzarella'' 25 True, stocked ''Cheddar'' 15 False]"
    by (simp add: seed_store_def)
  from run a b show ?thesis
    unfolding ivs by (intro conjI exI) simp_all
qed

text \<open>
  An item that stores no base and no sauce: both lookups are made with an undefined name
  and reach the first active inventory item, whatever it is. The sample order with one
  cheese, twice: the Mozzarella goes from 25 to 19, and with two cheeses that are not in
  stock, from 25 to 21.
\<close>

lemma absent_base_and_sauce_consume_first_active:
  "ingredient_names (customizations (hd (items (bare_order [''Mozzarella''])))) =
     [None, None, Some ''Mozzarella'']
   \<and> map currentStock (inventory (snd (verify_payment sample_env customer valid_payment
        (store_with (bare_order [''Mozzarella'']))))) = [19, 15]
   \<and> map currentStock (inventory (snd (verify_payment sample_env customer valid_payment
        (store_with (bare_order [''Cheddar'', ''Blue Cheese'']))))) = [21, 15]"
  by (simp add: bare_order_def verify_eval)

end
